theory Spec2Isabelle
  imports Complex_Main "HOL-Library.Sublist" "HOL-Library.Signed_Division" "HOL-Library.AList"
    "HOL-Library.Log_Nat"
begin

section \<open>JavaScript values and exceptions\<close>

text \<open>
  The engine is TypeScript compiled to JavaScript. Three exceptions can be raised by the
  code under study: a \<open>TypeError\<close> of the runtime (a property read on \<open>undefined\<close> or
  \<open>null\<close>, \<open>reduce\<close> of an empty array with no initial value), a \<open>RangeError\<close> of the
  runtime (\<open>String.prototype.repeat\<close> with a negative count), and an \<open>Error\<close> thrown
  by the elliptic library when it is given a key or a signature it cannot decode (here
  \<open>LibraryError\<close>). A function that can raise returns \<open>error + 'a\<close>, with \<open>Inl\<close> for the
  exception.
\<close>

datatype error = TypeError | RangeError | LibraryError

text \<open>
  Values as \<open>JSON.parse\<close> delivers them, used where the code inspects run-time types
  (\<open>isValidBlockStructure\<close>) or returns something that is not a boolean
  (\<open>validateCoinbaseTx\<close>). The numbers held in the fields of blocks and transactions
  are restricted to integers: each is an index, a timestamp in seconds, a difficulty, a
  nonce or an amount. Where the code adds amounts or powers of two, or retargets the
  difficulty, the model computes with doubles (section Numbers); \<open>index + 1\<close> and
  \<open>timestamp - 60\<close> are computed over the integers, which is the arithmetic of doubles
  on integers below \<open>2^53\<close>.
\<close>

datatype jsval =
    JUndefined
  | JNull
  | JBoolean bool
  | JNumber int
  | JString string
  | JArray "jsval list"
  | JObject "(string \<times> jsval) list"

text \<open>The \<open>typeof\<close> operator.\<close>

fun typeof :: "jsval \<Rightarrow> string" where
  "typeof JUndefined = ''undefined''"
| "typeof JNull = ''object''"
| "typeof (JBoolean b) = ''boolean''"
| "typeof (JNumber n) = ''number''"
| "typeof (JString s) = ''string''"
| "typeof (JArray xs) = ''object''"
| "typeof (JObject fs) = ''object''"

text \<open>
  A property read \<open>v.k\<close>: a \<open>TypeError\<close> on \<open>undefined\<close> and \<open>null\<close>, the stored value
  of an own property of an object, \<open>length\<close> of an array or a string, and \<open>undefined\<close>
  for every other data property (methods of the prototypes are not values of the model).
\<close>

fun getProp :: "jsval \<Rightarrow> string \<Rightarrow> error + jsval" where
  "getProp JUndefined k = Inl TypeError"
| "getProp JNull k = Inl TypeError"
| "getProp (JObject fs) k = Inr (case map_of fs k of None \<Rightarrow> JUndefined | Some v \<Rightarrow> v)"
| "getProp (JArray xs) k = Inr (if k = ''length'' then JNumber (int (length xs)) else JUndefined)"
| "getProp (JString s) k = Inr (if k = ''length'' then JNumber (int (length s)) else JUndefined)"
| "getProp (JBoolean b) k = Inr JUndefined"
| "getProp (JNumber n) k = Inr JUndefined"

text \<open>\<open>ToBoolean\<close>, as \<open>!v\<close> and \<open>if (v)\<close> apply it.\<close>

fun truthy :: "jsval \<Rightarrow> bool" where
  "truthy JUndefined = False"
| "truthy JNull = False"
| "truthy (JBoolean b) = b"
| "truthy (JNumber n) = (n \<noteq> 0)"
| "truthy (JString s) = (s \<noteq> [])"
| "truthy (JArray xs) = True"
| "truthy (JObject fs) = True"

text \<open>
  An array read \<open>xs[i]\<close>: \<open>undefined\<close> (here \<open>None\<close>) outside \<open>0 .. length - 1\<close>.
\<close>

definition jsIndex :: "'a list \<Rightarrow> int \<Rightarrow> 'a option" where
  "jsIndex xs i = (if 0 \<le> i \<and> i < int (length xs) then Some (xs ! nat i) else None)"

text \<open>
  \<open>Array.prototype.map\<close> with a callback that may raise: the first exception ends the
  traversal.
\<close>

fun mapE :: "('a \<Rightarrow> error + 'b) \<Rightarrow> 'a list \<Rightarrow> error + 'b list" where
  "mapE f [] = Inr []"
| "mapE f (x # xs) =
     (case f x of
        Inl e \<Rightarrow> Inl e
      | Inr y \<Rightarrow> (case mapE f xs of Inl e \<Rightarrow> Inl e | Inr ys \<Rightarrow> Inr (y # ys)))"

text \<open>
  The string of a number, as \<open>+\<close> with a string operand produces it: decimal digits, with
  a minus sign for a negative number.
\<close>

fun digits10 :: "nat \<Rightarrow> string" where
  "digits10 n =
     (if n < 10 then [char_of (48 + n)]
      else digits10 (n div 10) @ [char_of (48 + n mod 10)])"

declare digits10.simps [simp del]

definition numToString :: "int \<Rightarrow> string" where
  "numToString i = (if i < 0 then CHR ''-'' # digits10 (nat (- i)) else digits10 (nat i))"

section \<open>Numbers\<close>

text \<open>
  A JavaScript number is an IEEE 754 double. Where the code adds, subtracts and compares
  amounts, difficulties and times, the model computes as the runtime does: a number is a
  finite double, given by the rational it equals, one of the two infinities, or
  \<open>NaN\<close>. (The two zeros are not told apart: nothing in the code under study can.)
\<close>

datatype jsnumber = Finite rat | Infinity | NegInfinity | NaN

text \<open>The number a field of integer value holds.\<close>

definition num :: "int \<Rightarrow> jsnumber" where
  "num n = Finite (of_int n)"

text \<open>
  \<open>floorLog2 q\<close> is the exponent \<open>e\<close> with \<open>2^e \<le> q < 2^(e+1)\<close> of a positive
  rational: from the bit lengths of numerator and denominator it is known up to one.
\<close>

definition floorLog2 :: "rat \<Rightarrow> int" where
  "floorLog2 q =
     (let (p, d) = quotient_of q; k = bitlen p - bitlen d
      in if 2 powi k \<le> q then k else k - 1)"

definition roundHalfEven :: "rat \<Rightarrow> int" where
  "roundHalfEven x =
     (let f = \<lfloor>x\<rfloor>; r = x - of_int f
      in if r < 1 / 2 then f
         else if 1 / 2 < r then f + 1
         else if even f then f else f + 1)"

text \<open>
  Rounding to the nearest double, ties to the even significand: the result is a multiple
  of the unit in the last place of 53-bit significands at the exponent of the argument
  (at least \<open>-1022\<close>, where the subnormal numbers begin), and it is infinite from
  \<open>2^1024\<close> on.
\<close>

definition roundDouble :: "rat \<Rightarrow> jsnumber" where
  "roundDouble q =
     (if q = 0 then Finite 0
      else
        let a = \<bar>q\<bar>;
            e = max (floorLog2 a) (- 1022);
            ulp = 2 powi (e - 52);
            v = of_int (roundHalfEven (a / ulp)) * ulp
        in if 2 ^ 1024 \<le> v then (if 0 < q then Infinity else NegInfinity)
           else Finite (sgn q * v))"

text \<open>\<open>x + y\<close>, \<open>-x\<close> and \<open>x - y\<close> on numbers.\<close>

fun jsAdd :: "jsnumber \<Rightarrow> jsnumber \<Rightarrow> jsnumber" where
  "jsAdd (Finite a) (Finite b) = roundDouble (a + b)"
| "jsAdd NaN y = NaN"
| "jsAdd x NaN = NaN"
| "jsAdd Infinity NegInfinity = NaN"
| "jsAdd NegInfinity Infinity = NaN"
| "jsAdd Infinity y = Infinity"
| "jsAdd NegInfinity y = NegInfinity"
| "jsAdd x Infinity = Infinity"
| "jsAdd x NegInfinity = NegInfinity"



text \<open>\<open>x < y\<close> (and \<open>x > y\<close>, which is \<open>y < x\<close>): false whenever an operand is \<open>NaN\<close>.\<close>

fun jsLess :: "jsnumber \<Rightarrow> jsnumber \<Rightarrow> bool" where
  "jsLess (Finite a) (Finite b) = (a < b)"
| "jsLess NaN y = False"
| "jsLess x NaN = False"
| "jsLess Infinity y = False"
| "jsLess x NegInfinity = False"
| "jsLess NegInfinity y = True"
| "jsLess x Infinity = True"

text \<open>\<open>x === y\<close> on numbers: \<open>NaN\<close> equals nothing.\<close>

definition jsStrictEq :: "jsnumber \<Rightarrow> jsnumber \<Rightarrow> bool" where
  "jsStrictEq x y = (x \<noteq> NaN \<and> x = y)"

text \<open>
  \<open>Math.pow(2, d)\<close> for an integer \<open>d\<close>: the power of two, zero below the smallest
  subnormal number and infinite from \<open>d = 1024\<close> on.
\<close>

definition jsPow2 :: "int \<Rightarrow> jsnumber" where
  "jsPow2 d = roundDouble (2 powi d)"

text \<open>\<open>xs.reduce((a, b) => a + b, 0)\<close> on numbers.\<close>

definition sumNumbers :: "jsnumber list \<Rightarrow> jsnumber" where
  "sumNumbers xs = foldl (\<lambda>a b. jsAdd a b) (num 0) xs"

section \<open>Transactions (transaction.ts)\<close>

record UnspentTxOut =
  utxo_txOutId :: string
  utxo_txOutIndex :: int
  utxo_address :: string
  utxo_amount :: int

record TxIn =
  txOutId :: string
  txOutIndex :: int
  signature :: string

record TxOut =
  address :: string
  amount :: int

record Transaction =
  tx_id :: string
  txIns :: "TxIn list"
  txOuts :: "TxOut list"

definition COINBASE_AMOUNT :: int where
  "COINBASE_AMOUNT = 50"

text \<open>
  What the engine takes from outside the sources at hand:
  \<^item> \<open>SHA256 s\<close> is \<open>CryptoJS.SHA256(s).toString()\<close>, the hexadecimal digest of a string;
  \<^item> \<open>ecVerify address id sig\<close> is \<open>ec.keyFromPublic(address, 'hex').verify(id, sig)\<close>
    of the elliptic library (secp256k1): a boolean, or the exception the library throws
    on a key or a signature it cannot decode;
  \<^item> \<open>isValidTransactionStructure\<close> is called by \<open>validateTransaction\<close> and defined in no
    file at hand;
  \<^item> \<open>hexToBinary\<close> is imported from \<open>./util\<close>, which is not at hand;
  \<^item> \<open>getCurrentTimestamp\<close> is the clock, read in seconds.
  Every function below that depends on one of them takes the record as its first argument;
  the theorems hold for every choice of its fields.
\<close>

record env =
  SHA256 :: "string \<Rightarrow> string"
  ecVerify :: "string \<Rightarrow> string \<Rightarrow> string \<Rightarrow> error + bool"
  isValidTransactionStructure :: "Transaction \<Rightarrow> bool"
  hexToBinary :: "string \<Rightarrow> string"
  getCurrentTimestamp :: int

text \<open>\<open>xs.reduce((a, b) => a + b, '')\<close> on strings.\<close>

definition concatStrings :: "string list \<Rightarrow> string" where
  "concatStrings xs = foldl (\<lambda>a b. a @ b) [] xs"

definition getTransactionId :: "env \<Rightarrow> Transaction \<Rightarrow> string" where
  "getTransactionId E transaction =
     (let txInContent =
            concatStrings (map (\<lambda>txIn. txOutId txIn @ numToString (txOutIndex txIn))
                               (txIns transaction));
          txOutContent =
            concatStrings (map (\<lambda>txOut. address txOut @ numToString (amount txOut))
                               (txOuts transaction))
      in SHA256 E (txInContent @ txOutContent))"

definition findUnspentTxOut :: "string \<Rightarrow> int \<Rightarrow> UnspentTxOut list \<Rightarrow> UnspentTxOut option" where
  "findUnspentTxOut transactionId ind aUnspentTxOuts =
     find (\<lambda>uTxO. utxo_txOutId uTxO = transactionId \<and> utxo_txOutIndex uTxO = ind) aUnspentTxOuts"

text \<open>
  The two calls into the elliptic library stand in no \<open>try\<close>: what they throw leaves
  \<open>validateTxIn\<close> and its callers.
\<close>

definition validateTxIn :: "env \<Rightarrow> TxIn \<Rightarrow> Transaction \<Rightarrow> UnspentTxOut list \<Rightarrow> error + bool" where
  "validateTxIn E txIn transaction aUnspentTxOuts =
     (case find (\<lambda>uTxO. utxo_txOutId uTxO = txOutId txIn \<and> utxo_txOutIndex uTxO = txOutIndex txIn)
                aUnspentTxOuts of
        None \<Rightarrow> Inr False
      | Some referencedUTxOut \<Rightarrow>
          (case ecVerify E (utxo_address referencedUTxOut) (tx_id transaction) (signature txIn) of
             Inl e \<Rightarrow> Inl e
           | Inr validSignature \<Rightarrow> if \<not> validSignature then Inr False else Inr True))"

text \<open>
  \<open>findUnspentTxOut(...).amount\<close>: a \<open>TypeError\<close> when no unspent output is found.
\<close>

definition getTxInAmount :: "TxIn \<Rightarrow> UnspentTxOut list \<Rightarrow> error + int" where
  "getTxInAmount txIn aUnspentTxOuts =
     (case findUnspentTxOut (txOutId txIn) (txOutIndex txIn) aUnspentTxOuts of
        None \<Rightarrow> Inl TypeError
      | Some uTxO \<Rightarrow> Inr (utxo_amount uTxO))"

definition validateTransaction :: "env \<Rightarrow> Transaction \<Rightarrow> UnspentTxOut list \<Rightarrow> error + bool" where
  "validateTransaction E transaction aUnspentTxOuts =
     (if \<not> isValidTransactionStructure E transaction then Inr False
      else if getTransactionId E transaction \<noteq> tx_id transaction then Inr False
      else
        (case mapE (\<lambda>txIn. validateTxIn E txIn transaction aUnspentTxOuts) (txIns transaction) of
           Inl e \<Rightarrow> Inl e
         | Inr valid \<Rightarrow>
             let hasValidTxIns = foldl (\<lambda>a b. a \<and> b) True valid
             in if \<not> hasValidTxIns then Inr False
                else
                  (case mapE (\<lambda>txIn. getTxInAmount txIn aUnspentTxOuts) (txIns transaction) of
                     Inl e \<Rightarrow> Inl e
                   | Inr amounts \<Rightarrow>
                       let totalTxInValues = sumNumbers (map num amounts);
                           totalTxOutValues =
                             sumNumbers (map (\<lambda>txOut. num (amount txOut)) (txOuts transaction))
                       in if \<not> jsStrictEq totalTxOutValues totalTxInValues then Inr False
                          else Inr True)))"

text \<open>
  \<open>validateCoinbaseTx\<close> is declared to return a boolean, but its third exit is a bare
  \<open>return;\<close>, so the result is a JavaScript value. The argument is \<open>aTransactions[0]\<close>,
  which is \<open>undefined\<close> (here \<open>None\<close>) for an empty array.
\<close>

definition validateCoinbaseTx :: "env \<Rightarrow> Transaction option \<Rightarrow> int \<Rightarrow> jsval" where
  "validateCoinbaseTx E transaction blockIndex =
     (case transaction of
        None \<Rightarrow> JBoolean False
      | Some tx \<Rightarrow>
          if getTransactionId E tx \<noteq> tx_id tx then JBoolean False
          else if length (txIns tx) \<noteq> 1 then JUndefined
          else if txOutIndex (txIns tx ! 0) \<noteq> blockIndex then JBoolean False
          else if length (txOuts tx) \<noteq> 1 then JBoolean False
          else if amount (txOuts tx ! 0) \<noteq> COINBASE_AMOUNT then JBoolean False
          else JBoolean True)"

text \<open>
  \<open>_.countBy(xs, f)\<close> of lodash: an object with one key per distinct \<open>f x\<close>, holding how
  many elements gave that key.
\<close>

definition countBy :: "('a \<Rightarrow> string) \<Rightarrow> 'a list \<Rightarrow> (string \<times> nat) list" where
  "countBy f xs = map (\<lambda>k. (k, count_list (map f xs) k)) (remdups (map f xs))"

definition hasDuplicates :: "TxIn list \<Rightarrow> bool" where
  "hasDuplicates ins =
     (let groups = countBy (\<lambda>txIn. txOutId txIn @ numToString (txOutIndex txIn)) ins
      in List.member (map (\<lambda>(key, v). if v > 1 then True else False) groups) True)"

definition validateBlockTransactions ::
  "env \<Rightarrow> Transaction list \<Rightarrow> UnspentTxOut list \<Rightarrow> int \<Rightarrow> error + bool" where
  "validateBlockTransactions E aTransactions aUnspentTxOuts blockIndex =
     (let coinbaseTx = jsIndex aTransactions 0
      in if \<not> truthy (validateCoinbaseTx E coinbaseTx blockIndex) then Inr False
         else
           let ins = concat (map txIns aTransactions)
           in if hasDuplicates ins then Inr False
              else
                let normalTransactions = drop 1 aTransactions
                in (case mapE (\<lambda>tx. validateTransaction E tx aUnspentTxOuts) normalTransactions of
                      Inl e \<Rightarrow> Inl e
                    | Inr bs \<Rightarrow> Inr (foldl (\<lambda>a b. a \<and> b) True bs)))"

text \<open>\<open>xs.reduce((a, b) => a.concat(b), [])\<close> on arrays.\<close>

definition concatArrays :: "'a list list \<Rightarrow> 'a list" where
  "concatArrays xs = foldl (\<lambda>a b. a @ b) [] xs"

definition updateUnspentTxOuts :: "Transaction list \<Rightarrow> UnspentTxOut list \<Rightarrow> UnspentTxOut list" where
  "updateUnspentTxOuts aTransactions aUnspentTxOuts =
     (let newUnspentTxOuts =
            concatArrays
              (map (\<lambda>t. map (\<lambda>(ind, txOut).
                               \<lparr>utxo_txOutId = tx_id t, utxo_txOutIndex = int ind,
                                utxo_address = address txOut, utxo_amount = amount txOut\<rparr>)
                             (enumerate 0 (txOuts t)))
                   aTransactions);
          consumedTxOuts =
            map (\<lambda>txIn. \<lparr>utxo_txOutId = txOutId txIn, utxo_txOutIndex = txOutIndex txIn,
                         utxo_address = [], utxo_amount = 0\<rparr>)
                (concatArrays (map txIns aTransactions))
      in filter (\<lambda>uTxO. findUnspentTxOut (utxo_txOutId uTxO) (utxo_txOutIndex uTxO) consumedTxOuts = None)
                aUnspentTxOuts
         @ newUnspentTxOuts)"

text \<open>\<open>null\<close> is \<open>None\<close>.\<close>

definition processTransactions ::
  "env \<Rightarrow> Transaction list \<Rightarrow> UnspentTxOut list \<Rightarrow> int \<Rightarrow> error + UnspentTxOut list option" where
  "processTransactions E aTransactions aUnspentTxOuts blockIndex =
     (case validateBlockTransactions E aTransactions aUnspentTxOuts blockIndex of
        Inl e \<Rightarrow> Inl e
      | Inr ok \<Rightarrow>
          if \<not> ok then Inr None
          else Inr (Some (updateUnspentTxOuts aTransactions aUnspentTxOuts)))"

definition getCoinbaseTransaction :: "env \<Rightarrow> string \<Rightarrow> int \<Rightarrow> Transaction" where
  "getCoinbaseTransaction E addr blockIndex =
     (let txIn = \<lparr>txOutId = [], txOutIndex = blockIndex, signature = []\<rparr>;
          t = \<lparr>tx_id = [], txIns = [txIn], txOuts = [\<lparr>address = addr, amount = COINBASE_AMOUNT\<rparr>]\<rparr>
      in t\<lparr>tx_id := getTransactionId E t\<rparr>)"

section \<open>Blocks and the chain (blockchain.ts)\<close>

record Block =
  index :: int
  hash :: string
  previousHash :: string
  timestamp :: int
  data :: "Transaction list"
  difficulty :: int
  nonce :: int

definition genesisTransaction :: Transaction where
  "genesisTransaction =
     \<lparr>tx_id = ''e655f6a5f26dc9b4cac6e46f52336428287759cf81ef5ff10854f69d68f43fa3'',
      txIns = [\<lparr>txOutId = [], txOutIndex = 0, signature = []\<rparr>],
      txOuts = [\<lparr>address = ''04bfcab8722991ae774db48f934ca79cfb7dd991229153b9f732ba5334aafcd8e7266e47076996b55a14bf9913ee3145ce0cfc1372ada8ada74bd287450313534a'',
                 amount = 50\<rparr>]\<rparr>"

definition genesisBlock :: Block where
  "genesisBlock =
     \<lparr>index = 0,
      hash = ''91a73664bc84c0baa1fc75ea6e4aa6d1d20c5df664c724e3159aefc2e1186627'',
      previousHash = [],
      timestamp = 1465154705,
      data = [genesisTransaction],
      difficulty = 0,
      nonce = 0\<rparr>"

text \<open>
  The two module-level variables of blockchain.ts. The transaction pool, which
  \<open>addBlockToChain\<close> and \<open>replaceChain\<close> update last through \<open>updateTransactionPool\<close>
  (transactionPool.ts, not at hand), and the broadcasts to peers are outside the model.
\<close>

record engine =
  blockchain :: "Block list"
  unspentTxOuts :: "UnspentTxOut list"

text \<open>
  Start-up stores \<open>processTransactions(blockchain[0].data, [], 0)\<close> in \<open>unspentTxOuts\<close>.
  With a digest function that returns the genesis transaction's id on its content (as
  SHA-256 does) this is the genesis output; otherwise the variable would hold \<open>null\<close>
  and the model has no initial state.
\<close>

definition initialEngine :: "env \<Rightarrow> engine option" where
  "initialEngine E =
     (case processTransactions E (data genesisBlock) [] 0 of
        Inr (Some u) \<Rightarrow> Some \<lparr>blockchain = [genesisBlock], unspentTxOuts = u\<rparr>
      | _ \<Rightarrow> None)"

definition getLatestBlock :: "engine \<Rightarrow> Block option" where
  "getLatestBlock s = jsIndex (blockchain s) (int (length (blockchain s)) - 1)"





text \<open>
  \<open>index + previousHash + timestamp + data + difficulty + nonce\<close>: the second operand is a
  string, so every \<open>+\<close> concatenates. An array of transaction objects becomes the strings
  of its elements joined by commas, and the string of each object is
  \<open>[object Object]\<close>.
\<close>

fun joinComma :: "string list \<Rightarrow> string" where
  "joinComma [] = []"
| "joinComma [x] = x"
| "joinComma (x # y # ys) = x @ '','' @ joinComma (y # ys)"

definition dataToString :: "Transaction list \<Rightarrow> string" where
  "dataToString txs = joinComma (map (\<lambda>t. ''[object Object]'') txs)"

definition calculateHash ::
  "env \<Rightarrow> int \<Rightarrow> string \<Rightarrow> int \<Rightarrow> Transaction list \<Rightarrow> int \<Rightarrow> int \<Rightarrow> string" where
  "calculateHash E ind prevHash time txs diff n =
     SHA256 E (numToString ind @ prevHash @ numToString time @ dataToString txs
               @ numToString diff @ numToString n)"

definition calculateHashForBlock :: "env \<Rightarrow> Block \<Rightarrow> string" where
  "calculateHashForBlock E block =
     calculateHash E (index block) (previousHash block) (timestamp block) (data block)
       (difficulty block) (nonce block)"

text \<open>
  The structure check reads the block as a JavaScript value: it is what \<open>JSON.parse\<close>
  delivered when p2p.ts calls it on a received block.
\<close>

definition hasTypeOf :: "jsval \<Rightarrow> string \<Rightarrow> string \<Rightarrow> error + bool" where
  "hasTypeOf v k ty = (case getProp v k of Inl e \<Rightarrow> Inl e | Inr x \<Rightarrow> Inr (typeof x = ty))"

text \<open>\<open>a && b\<close> on booleans, where reading either operand may raise.\<close>

definition andE :: "error + bool \<Rightarrow> error + bool \<Rightarrow> error + bool" where
  "andE a b = (case a of Inl e \<Rightarrow> Inl e | Inr x \<Rightarrow> if x then b else Inr False)"

definition isValidBlockStructure :: "jsval \<Rightarrow> error + bool" where
  "isValidBlockStructure block =
     andE (andE (andE (andE (hasTypeOf block ''index'' ''number'')
                            (hasTypeOf block ''hash'' ''string''))
                      (hasTypeOf block ''previousHash'' ''string''))
                (hasTypeOf block ''timestamp'' ''number''))
          (hasTypeOf block ''data'' ''object'')"

text \<open>
  A block of the declared type as the JavaScript object it is, with the properties in the
  order the constructor assigns them.
\<close>

definition txInJS :: "TxIn \<Rightarrow> jsval" where
  "txInJS i =
     JObject [(''txOutId'', JString (txOutId i)), (''txOutIndex'', JNumber (txOutIndex i)),
              (''signature'', JString (signature i))]"

definition txOutJS :: "TxOut \<Rightarrow> jsval" where
  "txOutJS out = JObject [(''address'', JString (address out)), (''amount'', JNumber (amount out))]"

definition transactionJS :: "Transaction \<Rightarrow> jsval" where
  "transactionJS t =
     JObject [(''id'', JString (tx_id t)), (''txIns'', JArray (map txInJS (txIns t))),
              (''txOuts'', JArray (map txOutJS (txOuts t)))]"

definition blockJS :: "Block \<Rightarrow> jsval" where
  "blockJS b =
     JObject [(''index'', JNumber (index b)),
              (''previousHash'', JString (previousHash b)),
              (''timestamp'', JNumber (timestamp b)),
              (''data'', JArray (map transactionJS (data b))),
              (''hash'', JString (hash b)),
              (''difficulty'', JNumber (difficulty b)),
              (''nonce'', JNumber (nonce b))]"

definition isValidTimestamp :: "env \<Rightarrow> Block \<Rightarrow> Block \<Rightarrow> bool" where
  "isValidTimestamp E newBlock previousBlock =
     (timestamp previousBlock - 60 < timestamp newBlock
      \<and> timestamp newBlock - 60 < getCurrentTimestamp E)"

definition hashMatchesBlockContent :: "env \<Rightarrow> Block \<Rightarrow> bool" where
  "hashMatchesBlockContent E block = (calculateHashForBlock E block = hash block)"

text \<open>
  \<open>'0'.repeat(difficulty)\<close> raises a \<open>RangeError\<close> on a negative count. (It also
  raises on a count beyond the longest string the runtime allows; difficulties of that
  size are outside the model.)
\<close>

definition hashMatchesDifficulty :: "env \<Rightarrow> string \<Rightarrow> int \<Rightarrow> error + bool" where
  "hashMatchesDifficulty E h diff =
     (let hashInBinary = hexToBinary E h
      in if diff < 0 then Inl RangeError
         else let requiredPrefix = replicate (nat diff) CHR ''0''
              in Inr (prefix requiredPrefix hashInBinary))"

text \<open>
  When the difficulty is not met the source logs a message and goes on to \<open>return true\<close>.
\<close>

definition hasValidHash :: "env \<Rightarrow> Block \<Rightarrow> error + bool" where
  "hasValidHash E block =
     (if \<not> hashMatchesBlockContent E block then Inr False
      else
        (case hashMatchesDifficulty E (hash block) (difficulty block) of
           Inl e \<Rightarrow> Inl e
         | Inr matches \<Rightarrow> Inr True))"

text \<open>
  The previous block is \<open>None\<close> when the caller read it from an empty chain
  (\<open>getLatestBlock\<close>); its first property read then raises.
\<close>

definition isValidNewBlock :: "env \<Rightarrow> Block \<Rightarrow> Block option \<Rightarrow> error + bool" where
  "isValidNewBlock E newBlock previous =
     (case isValidBlockStructure (blockJS newBlock) of
        Inl e \<Rightarrow> Inl e
      | Inr structureOk \<Rightarrow>
          if \<not> structureOk then Inr False
          else
            (case previous of
               None \<Rightarrow> Inl TypeError
             | Some previousBlock \<Rightarrow>
                 if index previousBlock + 1 \<noteq> index newBlock then Inr False
                 else if hash previousBlock \<noteq> previousHash newBlock then Inr False
                 else if \<not> isValidTimestamp E newBlock previousBlock then Inr False
                 else
                   (case hasValidHash E newBlock of
                      Inl e \<Rightarrow> Inl e
                    | Inr ok \<Rightarrow> if \<not> ok then Inr False else Inr True)))"

text \<open>
  The powers of two are added from left to right as numbers, each sum rounded.
  \<open>reduce\<close> without an initial value starts from the first element and raises on an
  empty array.
\<close>

definition getAccumulatedDifficulty :: "Block list \<Rightarrow> error + jsnumber" where
  "getAccumulatedDifficulty aBlockchain =
     (case map (\<lambda>d. jsPow2 d) (map difficulty aBlockchain) of
        [] \<Rightarrow> Inl TypeError
      | x # xs \<Rightarrow> Inr (foldl (\<lambda>a b. jsAdd a b) x xs))"

text \<open>
  \<open>isValidGenesis\<close> compares the \<open>JSON.stringify\<close> texts. On blocks of the declared
  type, serialised with the properties in one order, the text determines every field, so
  the comparison is equality of blocks; the text of \<open>undefined\<close> (the first element of an
  empty chain) is \<open>undefined\<close>, which differs from every string.
\<close>

definition isValidGenesis :: "Block option \<Rightarrow> bool" where
  "isValidGenesis block = (case block of None \<Rightarrow> False | Some b \<Rightarrow> b = genesisBlock)"

text \<open>The \<open>for\<close> loop of \<open>isValidChain\<close>, from index \<open>i\<close> on.\<close>

function isValidChainFrom ::
  "env \<Rightarrow> Block list \<Rightarrow> nat \<Rightarrow> UnspentTxOut list \<Rightarrow> error + UnspentTxOut list option" where
  "isValidChainFrom E blockchainToValidate i aUnspentTxOuts =
     (if i < length blockchainToValidate then
        let currentBlock = blockchainToValidate ! i
        in (case (if i \<noteq> 0
                  then isValidNewBlock E (blockchainToValidate ! i)
                         (jsIndex blockchainToValidate (int i - 1))
                  else Inr True) of
              Inl e \<Rightarrow> Inl e
            | Inr ok \<Rightarrow>
                if \<not> ok then Inr None
                else
                  (case processTransactions E (data currentBlock) aUnspentTxOuts (index currentBlock) of
                     Inl e \<Rightarrow> Inl e
                   | Inr None \<Rightarrow> Inr None
                   | Inr (Some u) \<Rightarrow> isValidChainFrom E blockchainToValidate (i + 1) u))
      else Inr (Some aUnspentTxOuts))"
  by pat_completeness auto
termination
  by (relation "measure (\<lambda>(E, bs, i, u). length bs - i)") auto

declare isValidChainFrom.simps [simp del]

definition isValidChain :: "env \<Rightarrow> Block list \<Rightarrow> error + UnspentTxOut list option" where
  "isValidChain E blockchainToValidate =
     (if \<not> isValidGenesis (jsIndex blockchainToValidate 0) then Inr None
      else isValidChainFrom E blockchainToValidate 0 [])"

text \<open>
  The two operations that write the state. Each returns what the call returns (or the
  exception that leaves it) and the state of the module afterwards; every assignment of
  the source comes after the last call that can raise.
\<close>

definition addBlockToChain :: "env \<Rightarrow> Block \<Rightarrow> engine \<Rightarrow> (error + bool) \<times> engine" where
  "addBlockToChain E newBlock s =
     (case isValidNewBlock E newBlock (getLatestBlock s) of
        Inl e \<Rightarrow> (Inl e, s)
      | Inr ok \<Rightarrow>
          if ok then
            (case processTransactions E (data newBlock) (unspentTxOuts s) (index newBlock) of
               Inl e \<Rightarrow> (Inl e, s)
             | Inr None \<Rightarrow> (Inr False, s)
             | Inr (Some retVal) \<Rightarrow>
                 (Inr True, \<lparr>blockchain = blockchain s @ [newBlock], unspentTxOuts = retVal\<rparr>))
          else (Inr False, s))"

definition replaceChain :: "env \<Rightarrow> Block list \<Rightarrow> engine \<Rightarrow> (error + unit) \<times> engine" where
  "replaceChain E newBlocks s =
     (case isValidChain E newBlocks of
        Inl e \<Rightarrow> (Inl e, s)
      | Inr None \<Rightarrow> (Inr (), s)
      | Inr (Some aUnspentTxOuts) \<Rightarrow>
          (case getAccumulatedDifficulty newBlocks of
             Inl e \<Rightarrow> (Inl e, s)
           | Inr dNew \<Rightarrow>
               (case getAccumulatedDifficulty (blockchain s) of
                  Inl e \<Rightarrow> (Inl e, s)
                | Inr dCurrent \<Rightarrow>
                    if jsLess dCurrent dNew
                    then (Inr (), \<lparr>blockchain = newBlocks, unspentTxOuts = aUnspentTxOuts\<rparr>)
                    else (Inr (), s))))"

section \<open>The properties in the words of the specification\<close>

text \<open>
  The amount an input resolves to in a set of unspent outputs: that of the first output
  with its \<open>(txOutId, txOutIndex)\<close>, and nothing when there is none.
\<close>

definition resolvedAmount :: "UnspentTxOut list \<Rightarrow> TxIn \<Rightarrow> int" where
  "resolvedAmount aUnspentTxOuts txIn =
     (case findUnspentTxOut (txOutId txIn) (txOutIndex txIn) aUnspentTxOuts of
        None \<Rightarrow> 0
      | Some uTxO \<Rightarrow> utxo_amount uTxO)"

text \<open>
  An input is accepted when it names an unspent output and the verification of its
  signature over the transaction's id under that output's address answers true. The
  verification answers for an input when it does not throw: when the input names no
  unspent output (nothing is verified), or the library returns a boolean.
\<close>

definition inputAccepted :: "env \<Rightarrow> UnspentTxOut list \<Rightarrow> Transaction \<Rightarrow> TxIn \<Rightarrow> bool" where
  "inputAccepted E aUnspentTxOuts t txIn =
     (case findUnspentTxOut (txOutId txIn) (txOutIndex txIn) aUnspentTxOuts of
        None \<Rightarrow> False
      | Some uTxO \<Rightarrow> ecVerify E (utxo_address uTxO) (tx_id t) (signature txIn) = Inr True)"

definition verificationAnswers :: "env \<Rightarrow> UnspentTxOut list \<Rightarrow> Transaction \<Rightarrow> TxIn \<Rightarrow> bool" where
  "verificationAnswers E aUnspentTxOuts t txIn =
     (case findUnspentTxOut (txOutId txIn) (txOutIndex txIn) aUnspentTxOuts of
        None \<Rightarrow> True
      | Some uTxO \<Rightarrow>
          (case ecVerify E (utxo_address uTxO) (tx_id t) (signature txIn) of
             Inl e \<Rightarrow> False
           | Inr b \<Rightarrow> True))"

text \<open>
  An unspent output is consumed by a list of transactions when one of their inputs names
  its \<open>(txOutId, txOutIndex)\<close>; a transaction adds one unspent output per \<open>TxOut\<close>,
  keyed by the transaction's id and the position of the output.
\<close>

definition consumedBy :: "Transaction list \<Rightarrow> UnspentTxOut \<Rightarrow> bool" where
  "consumedBy txs uTxO =
     list_ex (\<lambda>t. list_ex (\<lambda>txIn. txOutId txIn = utxo_txOutId uTxO \<and> txOutIndex txIn = utxo_txOutIndex uTxO)
                          (txIns t)) txs"

definition newOutputs :: "Transaction \<Rightarrow> UnspentTxOut list" where
  "newOutputs t =
     map (\<lambda>k. \<lparr>utxo_txOutId = tx_id t, utxo_txOutIndex = int k,
               utxo_address = address (txOuts t ! k), utxo_amount = amount (txOuts t ! k)\<rparr>)
         [0..<length (txOuts t)]"

text \<open>The value a property read finds in an object with the own properties \<open>fs\<close>.\<close>

definition field :: "(string \<times> jsval) list \<Rightarrow> string \<Rightarrow> jsval" where
  "field fs k = (case map_of fs k of None \<Rightarrow> JUndefined | Some v \<Rightarrow> v)"

text \<open>
  The unspent outputs a chain derives: \<open>processTransactions\<close> folded over its blocks in
  order, each with its own index, failing as soon as one block fails.
\<close>

fun foldTransactions ::
  "env \<Rightarrow> Block list \<Rightarrow> UnspentTxOut list \<Rightarrow> error + UnspentTxOut list option" where
  "foldTransactions E [] u = Inr (Some u)"
| "foldTransactions E (b # bs) u =
     (case processTransactions E (data b) u (index b) of
        Inl e \<Rightarrow> Inl e
      | Inr None \<Rightarrow> Inr None
      | Inr (Some u') \<Rightarrow> foldTransactions E bs u')"

definition derivedUnspentTxOuts :: "env \<Rightarrow> Block list \<Rightarrow> error + UnspentTxOut list option" where
  "derivedUnspentTxOuts E chain = foldTransactions E chain []"

text \<open>
  Every block of a chain after the first passes \<open>isValidNewBlock\<close> against its
  predecessor.
\<close>

definition linksValid :: "env \<Rightarrow> Block list \<Rightarrow> bool" where
  "linksValid E bs =
     list_all (\<lambda>i. isValidNewBlock E (bs ! i) (Some (bs ! (i - 1))) = Inr True) [1..<length bs]"

text \<open>
  The accumulated difficulty of the specification: the sum of \<open>2 ^ difficulty\<close> over the
  blocks of a chain, as an integer.
\<close>

definition accumulatedDifficulty :: "Block list \<Rightarrow> int" where
  "accumulatedDifficulty chain = (\<Sum>b\<leftarrow>chain. 2 ^ nat (difficulty b))"



text \<open>
  The states the engine reaches: the state after start-up, and every state that
  \<open>addBlockToChain\<close> or \<open>replaceChain\<close> leaves behind, whatever the call returned and
  whatever the clock showed when it ran.
\<close>

inductive reachable :: "env \<Rightarrow> engine \<Rightarrow> bool" for E :: env where
  start: "initialEngine E = Some s \<Longrightarrow> reachable E s"
| add: "reachable E s \<Longrightarrow>
        addBlockToChain (E\<lparr>getCurrentTimestamp := now\<rparr>) newBlock s = (r, s') \<Longrightarrow>
        reachable E s'"
| replace: "reachable E s \<Longrightarrow>
        replaceChain (E\<lparr>getCurrentTimestamp := now\<rparr>) newBlocks s = (r, s') \<Longrightarrow>
        reachable E s'"

section \<open>A concrete environment\<close>

text \<open>
  Modelled from the spec: \<open>hexToBinary\<close> of util.ts is not at hand; the specification
  reads the digest "as a binary string", four bits for each hexadecimal digit.
\<close>

definition hexDigitBits :: "char \<Rightarrow> string" where
  "hexDigitBits c =
     (case map_of
        [(CHR ''0'', ''0000''), (CHR ''1'', ''0001''), (CHR ''2'', ''0010''), (CHR ''3'', ''0011''),
         (CHR ''4'', ''0100''), (CHR ''5'', ''0101''), (CHR ''6'', ''0110''), (CHR ''7'', ''0111''),
         (CHR ''8'', ''1000''), (CHR ''9'', ''1001''), (CHR ''a'', ''1010''), (CHR ''b'', ''1011''),
         (CHR ''c'', ''1100''), (CHR ''d'', ''1101''), (CHR ''e'', ''1110''), (CHR ''f'', ''1111'')] c of
        None \<Rightarrow> []
      | Some bits \<Rightarrow> bits)"

definition hexToBinarySpec :: "string \<Rightarrow> string" where
  "hexToBinarySpec s = concat (map hexDigitBits s)"

text \<open>
  A stand-in for the digest, used only to evaluate the model on concrete inputs: the
  hexadecimal encoding of the string, except on the content of the genesis transaction,
  where it is the genesis transaction's id (the SHA-256 digest of that content).
\<close>

definition hexDigit :: "nat \<Rightarrow> char" where
  "hexDigit n = (if n < 10 then char_of (48 + n) else char_of (87 + n))"

definition hexEncode :: "string \<Rightarrow> string" where
  "hexEncode s = concat (map (\<lambda>c. [hexDigit (of_char c div 16), hexDigit (of_char c mod 16)]) s)"

definition genesisContent :: string where
  "genesisContent =
     ''004bfcab8722991ae774db48f934ca79cfb7dd991229153b9f732ba5334aafcd8e7266e47076996b55a14bf9913ee3145ce0cfc1372ada8ada74bd287450313534a50''"

definition testDigest :: "string \<Rightarrow> string" where
  "testDigest s = (if s = genesisContent then tx_id genesisTransaction else hexEncode s)"

text \<open>
  A stand-in for signature verification: the signature of a message under a key is the
  message followed by the key, and the empty signature cannot be decoded.
\<close>

definition testVerify :: "string \<Rightarrow> string \<Rightarrow> string \<Rightarrow> error + bool" where
  "testVerify addr msg sig = (if sig = [] then Inl LibraryError else Inr (sig = msg @ addr))"

definition testEnv :: env where
  "testEnv =
     \<lparr>SHA256 = testDigest,
      ecVerify = testVerify,
      isValidTransactionStructure = (\<lambda>t. True),
      hexToBinary = hexToBinarySpec,
      getCurrentTimestamp = 1465154800\<rparr>"

text \<open>Inputs on which the model is evaluated below.\<close>

definition exampleCoinbase :: Transaction where
  "exampleCoinbase = getCoinbaseTransaction testEnv ''04aa'' 1"

definition exampleUnspent :: "UnspentTxOut list" where
  "exampleUnspent =
     [\<lparr>utxo_txOutId = ''a1'', utxo_txOutIndex = 2, utxo_address = ''04aa'', utxo_amount = 25\<rparr>,
      \<lparr>utxo_txOutId = ''a'', utxo_txOutIndex = 12, utxo_address = ''04aa'', utxo_amount = 25\<rparr>]"

text \<open>
  A transfer of 50 from \<open>04aa\<close>: 30 to \<open>04bb\<close> and 20 back, spending the two outputs of
  \<open>exampleUnspent\<close> and signed as \<open>testVerify\<close> expects.
\<close>

definition exampleSpend :: Transaction where
  "exampleSpend =
     (let outs = [\<lparr>address = ''04bb'', amount = 30\<rparr>, \<lparr>address = ''04aa'', amount = 20\<rparr>];
          ident = getTransactionId testEnv
                    \<lparr>tx_id = [],
                     txIns = [\<lparr>txOutId = ''a1'', txOutIndex = 2, signature = []\<rparr>,
                              \<lparr>txOutId = ''a'', txOutIndex = 12, signature = []\<rparr>],
                     txOuts = outs\<rparr>
      in \<lparr>tx_id = ident,
          txIns = [\<lparr>txOutId = ''a1'', txOutIndex = 2, signature = ident @ ''04aa''\<rparr>,
                   \<lparr>txOutId = ''a'', txOutIndex = 12, signature = ident @ ''04aa''\<rparr>],
          txOuts = outs\<rparr>)"

text \<open>
  The same inputs spent into a single output of 30: the id is the digest of the content
  and the signatures are as \<open>testVerify\<close> expects, but 20 are missing from the outputs.
\<close>

definition unbalancedSpend :: Transaction where
  "unbalancedSpend =
     (let outs = [\<lparr>address = ''04bb'', amount = 30\<rparr>];
          ident = getTransactionId testEnv
                    \<lparr>tx_id = [],
                     txIns = [\<lparr>txOutId = ''a1'', txOutIndex = 2, signature = []\<rparr>,
                              \<lparr>txOutId = ''a'', txOutIndex = 12, signature = []\<rparr>],
                     txOuts = outs\<rparr>
      in \<lparr>tx_id = ident,
          txIns = [\<lparr>txOutId = ''a1'', txOutIndex = 2, signature = ident @ ''04aa''\<rparr>,
                   \<lparr>txOutId = ''a'', txOutIndex = 12, signature = ident @ ''04aa''\<rparr>],
          txOuts = outs\<rparr>)"

text \<open>
  A block on top of the genesis block that carries \<open>exampleCoinbase\<close>, with difficulty
  \<open>d\<close> and nonce \<open>n\<close>; its hash is the digest of its content.
\<close>

definition exampleBlock :: "int \<Rightarrow> int \<Rightarrow> Block" where
  "exampleBlock d n =
     (let b = \<lparr>index = 1, hash = [], previousHash = hash genesisBlock, timestamp = 1465154710,
               data = [exampleCoinbase], difficulty = d, nonce = n\<rparr>
      in b\<lparr>hash := calculateHashForBlock testEnv b\<rparr>)"

text \<open>The unspent outputs after the genesis block, and after \<open>exampleBlock\<close> on top of it.\<close>

definition genesisUnspent :: "UnspentTxOut list" where
  "genesisUnspent =
     [\<lparr>utxo_txOutId = tx_id genesisTransaction, utxo_txOutIndex = 0,
       utxo_address = ''04bfcab8722991ae774db48f934ca79cfb7dd991229153b9f732ba5334aafcd8e7266e47076996b55a14bf9913ee3145ce0cfc1372ada8ada74bd287450313534a'',
       utxo_amount = 50\<rparr>]"

definition exampleUnspentAfter :: "UnspentTxOut list" where
  "exampleUnspentAfter =
     genesisUnspent @
     [\<lparr>utxo_txOutId = tx_id exampleCoinbase, utxo_txOutIndex = 0,
       utxo_address = ''04aa'', utxo_amount = 50\<rparr>]"

text \<open>
  Two unspent outputs of \<open>2^53\<close> and 1 under the address of the genesis output, and a
  transaction that spends both into one output of \<open>2^53\<close>, signed as \<open>testVerify\<close>
  expects.
\<close>

definition genesisAddress :: string where
  "genesisAddress =
     ''04bfcab8722991ae774db48f934ca79cfb7dd991229153b9f732ba5334aafcd8e7266e47076996b55a14bf9913ee3145ce0cfc1372ada8ada74bd287450313534a''"

definition roundingUnspent :: "UnspentTxOut list" where
  "roundingUnspent =
     [\<lparr>utxo_txOutId = ''b1'', utxo_txOutIndex = 0, utxo_address = genesisAddress,
       utxo_amount = 9007199254740992\<rparr>,
      \<lparr>utxo_txOutId = ''b2'', utxo_txOutIndex = 0, utxo_address = genesisAddress,
       utxo_amount = 1\<rparr>]"

definition roundingSpend :: Transaction where
  "roundingSpend =
     (let outs = [\<lparr>address = genesisAddress, amount = 9007199254740992\<rparr>];
          ident = getTransactionId testEnv
                    \<lparr>tx_id = [],
                     txIns = [\<lparr>txOutId = ''b1'', txOutIndex = 0, signature = []\<rparr>,
                              \<lparr>txOutId = ''b2'', txOutIndex = 0, signature = []\<rparr>],
                     txOuts = outs\<rparr>
      in \<lparr>tx_id = ident,
          txIns = [\<lparr>txOutId = ''b1'', txOutIndex = 0, signature = ident @ genesisAddress\<rparr>,
                   \<lparr>txOutId = ''b2'', txOutIndex = 0, signature = ident @ genesisAddress\<rparr>],
          txOuts = outs\<rparr>)"

text \<open>
  A transaction that spends the genesis output with the empty signature; its id is the
  digest of its content.
\<close>

definition emptySignatureSpend :: Transaction where
  "emptySignatureSpend =
     (let ins = [\<lparr>txOutId = tx_id genesisTransaction, txOutIndex = 0, signature = []\<rparr>];
          outs = [\<lparr>address = genesisAddress, amount = 50\<rparr>]
      in \<lparr>tx_id = getTransactionId testEnv \<lparr>tx_id = [], txIns = ins, txOuts = outs\<rparr>,
          txIns = ins, txOuts = outs\<rparr>)"

text \<open>
  A block on top of \<open>p\<close> with difficulty \<open>d\<close>, carrying the coinbase transaction of its
  index; its hash is the digest of its content. The unspent outputs after two such blocks
  on top of the genesis block.
\<close>

definition exampleBlockOn :: "Block \<Rightarrow> int \<Rightarrow> Block" where
  "exampleBlockOn p d =
     (let b = \<lparr>index = index p + 1, hash = [], previousHash = hash p, timestamp = 1465154710,
               data = [getCoinbaseTransaction testEnv ''04aa'' (index p + 1)], difficulty = d,
               nonce = 0\<rparr>
      in b\<lparr>hash := calculateHashForBlock testEnv b\<rparr>)"

definition exampleChain :: "int \<Rightarrow> int \<Rightarrow> Block list" where
  "exampleChain d1 d2 =
     [genesisBlock, exampleBlockOn genesisBlock d1,
      exampleBlockOn (exampleBlockOn genesisBlock d1) d2]"

definition exampleUnspentTwo :: "UnspentTxOut list" where
  "exampleUnspentTwo =
     exampleUnspentAfter @
     [\<lparr>utxo_txOutId = tx_id (getCoinbaseTransaction testEnv ''04aa'' 2), utxo_txOutIndex = 0,
       utxo_address = ''04aa'', utxo_amount = 50\<rparr>]"



text \<open>
  A transaction of the shape of a coinbase transaction for block 1 whose \<open>id\<close> is not the
  digest of its content.
\<close>

definition badIdCoinbase :: Transaction where
  "badIdCoinbase =
     \<lparr>tx_id = [],
      txIns = [\<lparr>txOutId = [], txOutIndex = 1, signature = []\<rparr>],
      txOuts = [\<lparr>address = ''04ab'', amount = 50\<rparr>]\<rparr>"

section \<open>Auxiliary facts\<close>

lemma digits10_small: "n < 10 \<Longrightarrow> digits10 n = [char_of (48 + n)]"
  by (simp add: digits10.simps)

lemma foldl_conj: "foldl (\<lambda>a b. a \<and> b) acc bs = (acc \<and> list_all (\<lambda>b. b) bs)"
  by (induction bs arbitrary: acc) auto

lemma foldl_plus: "foldl (\<lambda>a b. a + b) (acc :: 'a :: monoid_add) xs = acc + sum_list xs"
  by (induction xs arbitrary: acc) (auto simp: add.assoc)

lemma foldl_append_concat: "foldl (\<lambda>a b. a @ b) acc xs = acc @ concat xs"
  by (induction xs arbitrary: acc) auto

lemma concatStrings_concat: "concatStrings xs = concat xs"
  by (simp add: concatStrings_def foldl_append_concat)

lemma concatArrays_concat: "concatArrays xs = concat xs"
  by (simp add: concatArrays_def foldl_append_concat)

lemma mapE_total: "(\<And>x. x \<in> set xs \<Longrightarrow> f x = Inr (g x)) \<Longrightarrow> mapE f xs = Inr (map g xs)"
  by (induction xs) auto


section \<open>Arithmetic of numbers\<close>

lemma roundHalfEven_of_int [simp]: "roundHalfEven (of_int N) = N"
  by (simp add: roundHalfEven_def)

lemma bitlen_1: "bitlen 1 = 1"
  by (simp add: bitlen_alt_def)

lemma bitlen_pos: "0 < a \<Longrightarrow> 1 \<le> bitlen a"
  using bitlen_eq_zero_iff [of a] bitlen_nonneg [of a] by linarith

lemma floorLog2_of_int:
  assumes "0 < a"
  shows "floorLog2 (of_int a) = bitlen a - 1"
proof -
  have "(2 :: int) ^ nat (bitlen a - 1) \<le> a"
    using bitlen_bounds [OF assms] by simp
  then have "(of_int ((2 :: int) ^ nat (bitlen a - 1)) :: rat) \<le> of_int a"
    by (simp only: of_int_le_iff)
  then have "(2 :: rat) ^ nat (bitlen a - 1) \<le> of_int a"
    by simp
  then have "(2 :: rat) powi (bitlen a - 1) \<le> of_int a"
    using bitlen_pos [OF assms] by (simp add: power_int_def)
  then show ?thesis
    by (simp add: floorLog2_def bitlen_1)
qed

text \<open>
  A rational below \<open>2^1024\<close> that is a whole number of units in the last place rounds to
  itself.
\<close>

lemma roundDouble_exact:
  assumes "q \<noteq> 0"
    and "\<bar>q\<bar> = of_int N * 2 powi (max (floorLog2 \<bar>q\<bar>) (- 1022) - 52)"
    and "\<bar>q\<bar> < 2 ^ 1024"
  shows "roundDouble q = Finite q"
proof -
  define ulp :: rat where "ulp = 2 powi (max (floorLog2 \<bar>q\<bar>) (- 1022) - 52)"
  have ulp: "ulp \<noteq> 0" by (simp add: ulp_def)
  have q: "\<bar>q\<bar> = of_int N * ulp"
    using assms(2) unfolding ulp_def .
  have "of_int N * ulp / ulp = (of_int N :: rat)"
    using ulp by simp
  then have "\<bar>q\<bar> / ulp = of_int N"
    by (simp only: q)
  then have v: "of_int (roundHalfEven (\<bar>q\<bar> / ulp)) * ulp = \<bar>q\<bar>"
    by (simp only: roundHalfEven_of_int q)
  have s: "sgn q * \<bar>q\<bar> = q"
    by (simp add: sgn_mult_abs)
  have "roundDouble q =
      (if 2 ^ 1024 \<le> of_int (roundHalfEven (\<bar>q\<bar> / ulp)) * ulp
       then (if 0 < q then Infinity else NegInfinity)
       else Finite (sgn q * (of_int (roundHalfEven (\<bar>q\<bar> / ulp)) * ulp)))"
    using assms(1) by (simp add: roundDouble_def Let_def ulp_def)
  also have "\<dots> = Finite q"
    using assms(3) by (simp only: v s) simp
  finally show ?thesis .
qed

text \<open>Every integer up to \<open>2^53\<close> in absolute value is a double.\<close>

lemma roundDouble_of_int:
  assumes "\<bar>n\<bar> \<le> 2 ^ 53"
  shows "roundDouble (of_int n) = Finite (of_int n)"
proof (cases "n = 0")
  case True
  then show ?thesis by (simp add: roundDouble_def)
next
  case False
  define a where "a = \<bar>n\<bar>"
  define e where "e = bitlen a - 1"
  have a: "0 < a" "a \<le> 2 ^ 53" using False assms by (simp_all add: a_def)
  have fl: "floorLog2 \<bar>of_int n :: rat\<bar> = e"
    using floorLog2_of_int [OF a(1)] by (simp add: a_def e_def)
  have e0: "0 \<le> e" using bitlen_pos [OF a(1)] by (simp add: e_def)
  have lo: "(2 :: int) ^ nat e \<le> a" using bitlen_bounds [OF a(1)] by (simp add: e_def)
  have e53: "e \<le> 53"
  proof (rule ccontr)
    assume "\<not> e \<le> 53"
    then have "54 \<le> nat e" by simp
    then have "(2 :: int) ^ 54 \<le> 2 ^ nat e" by (intro power_increasing) simp_all
    with lo a(2) show False by simp
  qed
  have "\<exists>N. (of_int a :: rat) = of_int N * 2 powi (e - 52)"
  proof (cases "e \<le> 52")
    case True
    have "(of_int a :: rat) = of_int (a * 2 ^ nat (52 - e)) * 2 powi (e - 52)"
      using True by (simp add: power_int_def field_simps)
    then show ?thesis by blast
  next
    case False
    with e53 have e: "e = 53" by simp
    with lo a(2) have "a = 2 ^ 53" by simp
    then have "(of_int a :: rat) = of_int (2 ^ 52) * 2 powi (e - 52)"
      using e by simp
    then show ?thesis by blast
  qed
  then obtain N where N: "(of_int a :: rat) = of_int N * 2 powi (e - 52)" ..
  have "\<bar>of_int n :: rat\<bar> = of_int a" by (simp add: a_def)
  moreover have "max e (- 1022) = e" using e0 by simp
  moreover have "(of_int a :: rat) < 2 ^ 1024"
  proof -
    have "a < 2 ^ 1024" using a(2) by (rule order_le_less_trans) simp
    then have "(of_int a :: rat) < of_int (2 ^ 1024)" by (simp only: of_int_less_iff)
    then show ?thesis by simp
  qed
  ultimately show ?thesis
    using False N fl by (intro roundDouble_exact [where N = N]) simp_all
qed

lemma jsAdd_num: "\<bar>a + b\<bar> \<le> 2 ^ 53 \<Longrightarrow> jsAdd (num a) (num b) = num (a + b)"
  using roundDouble_of_int [of "a + b"] by (simp add: num_def)


lemma jsLess_num [simp]: "jsLess (num a) (num b) \<longleftrightarrow> a < b"
  by (simp add: num_def)

lemma jsLess_irrefl [simp]: "\<not> jsLess x x"
  by (cases x) simp_all

lemma jsStrictEq_num [simp]: "jsStrictEq (num a) (num b) \<longleftrightarrow> a = b"
  by (simp add: jsStrictEq_def num_def)

text \<open>Sums of non-negative integers that stay within \<open>2^53\<close> are exact.\<close>

lemma foldl_jsAdd_num:
  assumes "0 \<le> acc" and "\<forall>a\<in>set xs. 0 \<le> a" and "acc + sum_list xs \<le> 2 ^ 53"
  shows "foldl (\<lambda>a b. jsAdd a b) (num acc) (map num xs) = num (acc + sum_list xs)"
  using assms
proof (induction xs arbitrary: acc)
  case Nil
  then show ?case by simp
next
  case (Cons x xs)
  have nonneg: "0 \<le> sum_list xs"
    using Cons.prems(2) by (intro sum_list_nonneg) simp
  have "\<bar>acc + x\<bar> \<le> 2 ^ 53"
    using Cons.prems nonneg by simp
  then have "jsAdd (num acc) (num x) = num (acc + x)"
    by (rule jsAdd_num)
  moreover have "foldl (\<lambda>a b. jsAdd a b) (num (acc + x)) (map num xs) = num (acc + x + sum_list xs)"
    using Cons.prems by (intro Cons.IH) (simp_all add: add.assoc)
  ultimately show ?case
    by (simp add: add.assoc)
qed

lemma sumNumbers_exact:
  "\<forall>a\<in>set xs. 0 \<le> a \<Longrightarrow> sum_list xs \<le> 2 ^ 53 \<Longrightarrow> sumNumbers (map num xs) = num (sum_list xs)"
  using foldl_jsAdd_num [of 0 xs] by (simp add: sumNumbers_def)

text \<open>The powers of two up to \<open>2^1023\<close> are doubles.\<close>

lemma jsPow2_exact:
  assumes "0 \<le> d" and "d \<le> 1023"
  shows "jsPow2 d = num (2 ^ nat d)"
proof -
  define n where "n = nat d"
  define q :: rat where "q = of_int (2 ^ n)"
  have d: "d = int n" using assms(1) by (simp add: n_def)
  have pow: "(2 :: rat) powi d = q"
    by (simp add: d q_def)
  have abs: "\<bar>q\<bar> = of_int (2 ^ n)" and ne: "q \<noteq> 0"
    by (simp_all add: q_def)
  have "bitlen (1 * 2 ^ n) = bitlen 1 + int n"
    by (rule bitlen_pow2) simp
  then have "floorLog2 (of_int (2 ^ n)) = int n"
    using floorLog2_of_int [of "2 ^ n"] by (simp add: bitlen_1)
  then have fl: "max (floorLog2 \<bar>q\<bar>) (- 1022) = int n"
    by (simp add: abs)
  have "(2 :: rat) powi (int n - 52 + 52) = 2 powi (int n - 52) * 2 powi 52"
    by (rule power_int_add) simp
  then have X: "\<bar>q\<bar> = of_int (2 ^ 52) * 2 powi (int n - 52)"
    by (simp add: abs)
  have N: "\<bar>q\<bar> = of_int (2 ^ 52) * 2 powi (max (floorLog2 \<bar>q\<bar>) (- 1022) - 52)"
    unfolding fl by (rule X)
  have "n < 1024" using assms(2) d by simp
  then have "(2 :: rat) ^ n < 2 ^ 1024"
    by (intro power_strict_increasing) simp_all
  then have lt: "\<bar>q\<bar> < 2 ^ 1024"
    by (simp add: abs)
  have "roundDouble q = Finite q"
    using ne N lt by (rule roundDouble_exact)
  then show ?thesis
    by (simp add: jsPow2_def pow num_def) (simp add: q_def n_def)
qed

text \<open>Rounding where it shows: \<open>2^53 + 1\<close> is no double.\<close>

lemma jsAdd_2_53_1: "jsAdd (num 9007199254740992) (num 1) = num 9007199254740992"
  by code_simp

lemma jsAdd_2_53_2: "jsAdd (num 2) (num 9007199254740992) = num 9007199254740994"
  by code_simp

lemma jsAdd_1_2_53: "jsAdd (num 1) (num 9007199254740992) = num 9007199254740992"
  by code_simp

section \<open>Transaction validation\<close>

lemma numToString_1: "numToString 1 = ''1''"
  by code_simp

lemma numToString_2: "numToString 2 = ''2''"
  by code_simp

lemma numToString_12: "numToString 12 = ''12''"
  by code_simp

lemma validateTxIn_answers:
  "verificationAnswers E u t txIn \<Longrightarrow> validateTxIn E txIn t u = Inr (inputAccepted E u t txIn)"
  by (auto simp: verificationAnswers_def inputAccepted_def validateTxIn_def findUnspentTxOut_def
      split: option.splits sum.splits)

lemma validateTxIn_raises:
  "\<not> verificationAnswers E u t txIn \<Longrightarrow> \<exists>e. validateTxIn E txIn t u = Inl e"
  by (auto simp: verificationAnswers_def validateTxIn_def findUnspentTxOut_def
      split: option.splits sum.splits)

lemma getTxInAmount_accepted:
  "inputAccepted E u t txIn \<Longrightarrow> getTxInAmount txIn u = Inr (resolvedAmount u txIn)"
  by (auto simp: inputAccepted_def getTxInAmount_def resolvedAmount_def split: option.splits)

text \<open>
  The amounts are summed only after every input has been accepted, so the property read
  in \<open>getTxInAmount\<close> never raises inside \<open>validateTransaction\<close>; what can leave it
  is an exception of the signature verification.
\<close>

lemma validateTransaction_eq:
  assumes "list_all (verificationAnswers E u t) (txIns t)"
  shows "validateTransaction E t u =
     Inr (isValidTransactionStructure E t
          \<and> getTransactionId E t = tx_id t
          \<and> list_all (inputAccepted E u t) (txIns t)
          \<and> jsStrictEq (sumNumbers (map (\<lambda>txOut. num (amount txOut)) (txOuts t)))
                         (sumNumbers (map (\<lambda>txIn. num (resolvedAmount u txIn)) (txIns t))))"
proof -
  have v: "mapE (\<lambda>txIn. validateTxIn E txIn t u) (txIns t) = Inr (map (inputAccepted E u t) (txIns t))"
  proof (rule mapE_total)
    fix x assume "x \<in> set (txIns t)"
    with assms have "verificationAnswers E u t x"
      by (simp add: list_all_iff)
    then show "validateTxIn E x t u = Inr (inputAccepted E u t x)"
      by (rule validateTxIn_answers)
  qed
  show ?thesis
  proof (cases "list_all (inputAccepted E u t) (txIns t)")
    case True
    have "mapE (\<lambda>txIn. getTxInAmount txIn u) (txIns t) = Inr (map (resolvedAmount u) (txIns t))"
    proof (rule mapE_total)
      fix x assume "x \<in> set (txIns t)"
      with True have "inputAccepted E u t x"
        by (simp add: list_all_iff)
      then show "getTxInAmount x u = Inr (resolvedAmount u x)"
        by (rule getTxInAmount_accepted)
    qed
    with True show ?thesis
      by (simp add: validateTransaction_def v foldl_conj list.pred_map comp_def Let_def)
  next
    case False
    then show ?thesis
      by (simp add: validateTransaction_def v foldl_conj list.pred_map comp_def Let_def)
  qed
qed

lemma validateTransaction_structure:
  "\<not> isValidTransactionStructure E t \<Longrightarrow> validateTransaction E t u = Inr False"
  by (simp add: validateTransaction_def)

lemma validateTransaction_id:
  "getTransactionId E t \<noteq> tx_id t \<Longrightarrow> validateTransaction E t u = Inr False"
  by (simp add: validateTransaction_def)

text \<open>
  When the structure and the id are right and the verification throws for an input,
  \<open>validateTransaction\<close> throws.
\<close>

lemma mapE_raises: "x \<in> set xs \<Longrightarrow> f x = Inl e \<Longrightarrow> \<exists>e'. mapE f xs = Inl e'"
  by (induction xs) (auto split: sum.splits)

lemma validateTransaction_raises:
  assumes "isValidTransactionStructure E t" and "getTransactionId E t = tx_id t"
    and "\<not> list_all (verificationAnswers E u t) (txIns t)"
  shows "\<exists>e. validateTransaction E t u = Inl e"
proof -
  from assms(3) obtain txIn where "txIn \<in> set (txIns t)" "\<not> verificationAnswers E u t txIn"
    by (auto simp: list_all_iff)
  then obtain e where "mapE (\<lambda>txIn. validateTxIn E txIn t u) (txIns t) = Inl e"
    using validateTxIn_raises mapE_raises by metis
  then show ?thesis
    using assms(1,2) by (simp add: validateTransaction_def)
qed

subsection \<open>The example transactions\<close>

lemma genesisAddress_nonempty [simp]: "genesisAddress \<noteq> []" "xs @ genesisAddress \<noteq> []"
  by (simp_all add: genesisAddress_def)

lemma exampleSpend_valid: "validateTransaction testEnv exampleSpend exampleUnspent = Inr True"
proof -
  have a: "list_all (verificationAnswers testEnv exampleUnspent exampleSpend) (txIns exampleSpend)"
    by (simp add: exampleSpend_def exampleUnspent_def verificationAnswers_def findUnspentTxOut_def
        Let_def testEnv_def testVerify_def)
  have 1: "isValidTransactionStructure testEnv exampleSpend"
    by (simp add: testEnv_def)
  have 2: "getTransactionId testEnv exampleSpend = tx_id exampleSpend"
    by (simp add: exampleSpend_def getTransactionId_def Let_def)
  have 3: "list_all (inputAccepted testEnv exampleUnspent exampleSpend) (txIns exampleSpend)"
    by (simp add: exampleSpend_def exampleUnspent_def inputAccepted_def findUnspentTxOut_def
        Let_def testEnv_def testVerify_def)
  have "map (\<lambda>txOut. num (amount txOut)) (txOuts exampleSpend) = map num [30, 20]"
    by (simp add: exampleSpend_def Let_def)
  then have 4: "sumNumbers (map (\<lambda>txOut. num (amount txOut)) (txOuts exampleSpend)) = num 50"
    using sumNumbers_exact [of "[30, 20]"] by simp
  have "map (\<lambda>txIn. num (resolvedAmount exampleUnspent txIn)) (txIns exampleSpend) = map num [25, 25]"
    by (simp add: exampleSpend_def exampleUnspent_def resolvedAmount_def findUnspentTxOut_def Let_def)
  then have 5: "sumNumbers (map (\<lambda>txIn. num (resolvedAmount exampleUnspent txIn)) (txIns exampleSpend)) = num 50"
    using sumNumbers_exact [of "[25, 25]"] by simp
  show ?thesis
    by (simp add: validateTransaction_eq [OF a] 1 2 3 4 5)
qed

lemma roundingSpend_valid: "validateTransaction testEnv roundingSpend roundingUnspent = Inr True"
proof -
  have a: "list_all (verificationAnswers testEnv roundingUnspent roundingSpend) (txIns roundingSpend)"
    by (simp add: roundingSpend_def roundingUnspent_def verificationAnswers_def findUnspentTxOut_def
        Let_def testEnv_def testVerify_def)
  have 1: "isValidTransactionStructure testEnv roundingSpend"
    by (simp add: testEnv_def)
  have 2: "getTransactionId testEnv roundingSpend = tx_id roundingSpend"
    by (simp add: roundingSpend_def getTransactionId_def Let_def)
  have 3: "list_all (inputAccepted testEnv roundingUnspent roundingSpend) (txIns roundingSpend)"
    by (simp add: roundingSpend_def roundingUnspent_def inputAccepted_def findUnspentTxOut_def
        Let_def testEnv_def testVerify_def)
  have "map (\<lambda>txOut. num (amount txOut)) (txOuts roundingSpend) = map num [9007199254740992]"
    by (simp add: roundingSpend_def Let_def)
  then have 4: "sumNumbers (map (\<lambda>txOut. num (amount txOut)) (txOuts roundingSpend))
      = num 9007199254740992"
    using sumNumbers_exact [of "[9007199254740992]"] by simp
  have "map (\<lambda>txIn. num (resolvedAmount roundingUnspent txIn)) (txIns roundingSpend)
      = [num 9007199254740992, num 1]"
    by (simp add: roundingSpend_def roundingUnspent_def resolvedAmount_def findUnspentTxOut_def Let_def)
  moreover have "jsAdd (num 0) (num 9007199254740992) = num 9007199254740992"
    using jsAdd_num [of 0 9007199254740992] by simp
  ultimately have 5: "sumNumbers (map (\<lambda>txIn. num (resolvedAmount roundingUnspent txIn)) (txIns roundingSpend))
      = num 9007199254740992"
    by (simp add: sumNumbers_def jsAdd_2_53_1)
  show ?thesis
    by (simp add: validateTransaction_eq [OF a] 1 2 3 4 5)
qed

lemma roundingSpend_sums:
  "sum_list (map amount (txOuts roundingSpend)) = 9007199254740992"
  "sum_list (map (resolvedAmount roundingUnspent) (txIns roundingSpend)) = 9007199254740993"
  by (simp_all add: roundingSpend_def roundingUnspent_def resolvedAmount_def findUnspentTxOut_def Let_def)

lemma emptySignatureSpend_raises:
  "validateTransaction testEnv emptySignatureSpend genesisUnspent = Inl LibraryError"
proof -
  have 1: "isValidTransactionStructure testEnv emptySignatureSpend"
    by (simp add: testEnv_def)
  have 2: "getTransactionId testEnv emptySignatureSpend = tx_id emptySignatureSpend"
    by (simp add: emptySignatureSpend_def getTransactionId_def Let_def)
  have 3: "mapE (\<lambda>txIn. validateTxIn testEnv txIn emptySignatureSpend genesisUnspent)
             (txIns emptySignatureSpend) = Inl LibraryError"
    by (simp add: emptySignatureSpend_def genesisUnspent_def validateTxIn_def Let_def
        testEnv_def testVerify_def)
  show ?thesis
    by (simp add: validateTransaction_def 1 2 3)
qed

text \<open>
  C6, as stated, fails on the code in two ways. \<open>roundingSpend\<close> spends inputs of
  \<open>2^53\<close> and 1 into one output of \<open>2^53\<close>: the sums differ, and
  \<open>validateTransaction\<close> returns true, because the sum of the inputs is rounded to
  \<open>2^53\<close>. \<open>emptySignatureSpend\<close> carries a signature that is not valid, and
  \<open>validateTransaction\<close> does not return false: the verification throws.
\<close>

theorem validateTransaction_counterexample:
  "validateTransaction testEnv roundingSpend roundingUnspent = Inr True
   \<and> sum_list (map amount (txOuts roundingSpend))
       \<noteq> sum_list (map (resolvedAmount roundingUnspent) (txIns roundingSpend))
   \<and> validateTransaction testEnv emptySignatureSpend genesisUnspent = Inl LibraryError"
  by (simp add: roundingSpend_valid roundingSpend_sums emptySignatureSpend_raises)

text \<open>
  C6, amended: \<open>validateTransaction\<close> returns false when the structure check fails and
  when the recomputed id differs from \<open>tx.id\<close>. When the signature verification answers
  for every input, it returns false when an input is not accepted (it names no unspent
  output, or the verification of its signature over \<open>tx.id\<close> under the referenced
  output's address answers false) or when the sum of the output amounts is not the sum of
  the resolved input amounts, both added from 0, left to right, as numbers of the
  language; it returns true when all four checks pass. Sums of non-negative amounts up to
  \<open>2^53\<close> are the exact sums.
\<close>

theorem validateTransaction_checks:
  "(\<not> isValidTransactionStructure E t \<longrightarrow> validateTransaction E t u = Inr False)
   \<and> (getTransactionId E t \<noteq> tx_id t \<longrightarrow> validateTransaction E t u = Inr False)
   \<and> (list_all (verificationAnswers E u t) (txIns t) \<longrightarrow>
        validateTransaction E t u =
          Inr (isValidTransactionStructure E t
               \<and> getTransactionId E t = tx_id t
               \<and> list_all (inputAccepted E u t) (txIns t)
               \<and> jsStrictEq (sumNumbers (map (\<lambda>txOut. num (amount txOut)) (txOuts t)))
                              (sumNumbers (map (\<lambda>txIn. num (resolvedAmount u txIn)) (txIns t)))))
   \<and> (verificationAnswers E u t txIn \<longrightarrow>
        validateTxIn E txIn t u = Inr (inputAccepted E u t txIn))
   \<and> ((\<forall>a\<in>set xs. 0 \<le> a) \<and> sum_list xs \<le> 2 ^ 53 \<longrightarrow>
        sumNumbers (map num xs) = num (sum_list xs))"
  using validateTransaction_eq [of E u t] validateTransaction_structure [of E t u]
    validateTransaction_id [of E t u] validateTxIn_answers [of E u t txIn] sumNumbers_exact [of xs]
  by blast

lemma unbalancedSpend_checks:
  "list_all (verificationAnswers testEnv exampleUnspent unbalancedSpend) (txIns unbalancedSpend)"
  "getTransactionId testEnv unbalancedSpend = tx_id unbalancedSpend"
  "list_all (inputAccepted testEnv exampleUnspent unbalancedSpend) (txIns unbalancedSpend)"
  "sum_list (map amount (txOuts unbalancedSpend)) = 30"
  "sum_list (map (resolvedAmount exampleUnspent) (txIns unbalancedSpend)) = 50"
  by (simp_all add: unbalancedSpend_def exampleUnspent_def verificationAnswers_def inputAccepted_def
      resolvedAmount_def findUnspentTxOut_def getTransactionId_def Let_def testEnv_def testVerify_def)

theorem validateTransaction_checks_witness:
  "validateTransaction testEnv exampleSpend exampleUnspent = Inr True
   \<and> validateTransaction testEnv unbalancedSpend exampleUnspent = Inr False
   \<and> validateTransaction testEnv (exampleSpend\<lparr>txOuts := [\<lparr>address = ''04bb'', amount = 30\<rparr>]\<rparr>) exampleUnspent
       = Inr False
   \<and> validateTransaction testEnv exampleSpend [] = Inr False
   \<and> sumNumbers (map num [30, 20]) = num 50"
proof -
  let ?t = "exampleSpend\<lparr>txOuts := [\<lparr>address = ''04bb'', amount = 30\<rparr>]\<rparr>"
  have a: "list_all (verificationAnswers testEnv exampleUnspent ?t) (txIns ?t)"
    by (simp add: exampleSpend_def exampleUnspent_def verificationAnswers_def findUnspentTxOut_def
        Let_def testEnv_def testVerify_def)
  have b: "list_all (verificationAnswers testEnv [] exampleSpend) (txIns exampleSpend)"
    by (simp add: exampleSpend_def verificationAnswers_def findUnspentTxOut_def Let_def)
  have 1: "getTransactionId testEnv ?t \<noteq> tx_id ?t"
    by (simp add: exampleSpend_def getTransactionId_def Let_def testEnv_def testDigest_def
        concatStrings_concat genesisContent_def hexEncode_def)
  have 2: "\<not> list_all (inputAccepted testEnv [] exampleSpend) (txIns exampleSpend)"
    by (simp add: exampleSpend_def inputAccepted_def findUnspentTxOut_def Let_def)
  have 3: "validateTransaction testEnv exampleSpend exampleUnspent = Inr True"
    by (rule exampleSpend_valid)
  have "map (\<lambda>txOut. num (amount txOut)) (txOuts unbalancedSpend) = map num [30]"
    by (simp add: unbalancedSpend_def Let_def)
  then have 4: "sumNumbers (map (\<lambda>txOut. num (amount txOut)) (txOuts unbalancedSpend)) = num 30"
    using sumNumbers_exact [of "[30]"] by simp
  have "map (\<lambda>txIn. num (resolvedAmount exampleUnspent txIn)) (txIns unbalancedSpend) = map num [25, 25]"
    by (simp add: unbalancedSpend_def exampleUnspent_def resolvedAmount_def findUnspentTxOut_def Let_def)
  then have 5: "sumNumbers (map (\<lambda>txIn. num (resolvedAmount exampleUnspent txIn)) (txIns unbalancedSpend)) = num 50"
    using sumNumbers_exact [of "[25, 25]"] by simp
  show ?thesis
    using validateTransaction_checks [of testEnv ?t exampleUnspent _ "[30, 20]"]
      validateTransaction_checks [of testEnv exampleSpend "[]"]
      validateTransaction_checks [of testEnv unbalancedSpend exampleUnspent]
      a b 1 2 3 4 5 unbalancedSpend_checks(1,2,3)
    by simp
qed

subsection \<open>The coinbase transaction\<close>

lemma validateCoinbaseTx_true_iff:
  "validateCoinbaseTx E (Some tx) blockIndex = JBoolean True \<longleftrightarrow>
     getTransactionId E tx = tx_id tx
     \<and> (\<exists>txIn. txIns tx = [txIn] \<and> txOutIndex txIn = blockIndex)
     \<and> (\<exists>txOut. txOuts tx = [txOut] \<and> amount txOut = 50)"
  by (auto simp: validateCoinbaseTx_def COINBASE_AMOUNT_def length_Suc_conv)

lemma truthy_validateCoinbaseTx:
  "truthy (validateCoinbaseTx E t blockIndex) \<longleftrightarrow> validateCoinbaseTx E t blockIndex = JBoolean True"
  by (auto simp: validateCoinbaseTx_def split: option.splits)

lemma validateCoinbaseTx_getCoinbaseTransaction:
  "validateCoinbaseTx E (Some (getCoinbaseTransaction E addr blockIndex)) blockIndex = JBoolean True"
  by (simp add: validateCoinbaseTx_true_iff getCoinbaseTransaction_def getTransactionId_def Let_def
      COINBASE_AMOUNT_def)

text \<open>
  The bare \<open>return;\<close>: with the right id and a number of inputs other than one, the
  result is \<open>undefined\<close>, which the caller's \<open>!\<close> treats as false.
\<close>

lemma validateCoinbaseTx_undefined:
  "getTransactionId E tx = tx_id tx \<Longrightarrow> length (txIns tx) \<noteq> 1 \<Longrightarrow>
   validateCoinbaseTx E (Some tx) blockIndex = JUndefined"
  by (simp add: validateCoinbaseTx_def)

text \<open>
  C7, as stated, fails on the code: \<open>badIdCoinbase\<close> has exactly one input, whose
  \<open>txOutIndex\<close> is the block index 1, and exactly one output, of amount 50, and
  \<open>validateCoinbaseTx\<close> returns false for it, because its id is not the digest of its
  content.
\<close>

theorem validateCoinbaseTx_counterexample:
  "validateCoinbaseTx testEnv (Some badIdCoinbase) 1 = JBoolean False
   \<and> length (txIns badIdCoinbase) = 1 \<and> txOutIndex (txIns badIdCoinbase ! 0) = 1
   \<and> length (txOuts badIdCoinbase) = 1 \<and> amount (txOuts badIdCoinbase ! 0) = 50"
  by code_simp

text \<open>
  C7, amended: \<open>validateCoinbaseTx\<close> returns true if and only if the transaction is
  present, its id equals the id recomputed from its inputs and outputs, it has exactly one
  input, whose \<open>txOutIndex\<close> equals the block index, and exactly one output, whose amount
  is 50.
\<close>

theorem validateCoinbaseTx_accepts_iff:
  "(validateCoinbaseTx E (Some tx) blockIndex = JBoolean True \<longleftrightarrow>
      getTransactionId E tx = tx_id tx
      \<and> (\<exists>txIn. txIns tx = [txIn] \<and> txOutIndex txIn = blockIndex)
      \<and> (\<exists>txOut. txOuts tx = [txOut] \<and> amount txOut = 50))
   \<and> validateCoinbaseTx E None blockIndex \<noteq> JBoolean True"
  by (simp add: validateCoinbaseTx_true_iff) (simp add: validateCoinbaseTx_def)

theorem validateCoinbaseTx_accepts_iff_witness:
  "validateCoinbaseTx testEnv (Some exampleCoinbase) 1 = JBoolean True
   \<and> validateCoinbaseTx testEnv (Some exampleCoinbase) 2 \<noteq> JBoolean True"
proof -
  have 1: "getTransactionId testEnv exampleCoinbase = tx_id exampleCoinbase"
    by (simp add: exampleCoinbase_def getCoinbaseTransaction_def getTransactionId_def Let_def)
  have 2: "txIns exampleCoinbase = [\<lparr>txOutId = [], txOutIndex = 1, signature = []\<rparr>]"
    by (simp add: exampleCoinbase_def getCoinbaseTransaction_def Let_def)
  have 3: "txOuts exampleCoinbase = [\<lparr>address = ''04aa'', amount = 50\<rparr>]"
    by (simp add: exampleCoinbase_def getCoinbaseTransaction_def Let_def COINBASE_AMOUNT_def)
  show ?thesis
    using validateCoinbaseTx_accepts_iff [of testEnv exampleCoinbase 1]
      validateCoinbaseTx_accepts_iff [of testEnv exampleCoinbase 2] 1 2 3
    by simp
qed

subsection \<open>The transactions of a block\<close>

lemma not_distinct_count_list:
  "(\<exists>k\<in>set ks. count_list ks k > 1) \<longleftrightarrow> \<not> distinct ks"
proof (induction ks)
  case Nil
  then show ?case by simp
next
  case (Cons a ks)
  show ?case
  proof (cases "a \<in> set ks")
    case True
    then have "count_list ks a \<noteq> 0" by (simp add: count_list_0_iff)
    with True show ?thesis by auto
  next
    case False
    with Cons show ?thesis by auto
  qed
qed

lemma hasDuplicates_iff:
  "hasDuplicates ins \<longleftrightarrow> \<not> distinct (map (\<lambda>txIn. txOutId txIn @ numToString (txOutIndex txIn)) ins)"
  using not_distinct_count_list [of "map (\<lambda>txIn. txOutId txIn @ numToString (txOutIndex txIn)) ins"]
  by (auto simp: hasDuplicates_def countBy_def Let_def)

text \<open>
  The coinbase check and the duplicate check come first; only then are the other
  transactions validated, in order, and an exception of that validation leaves
  \<open>validateBlockTransactions\<close>.
\<close>

lemma validateBlockTransactions_eq:
  "validateBlockTransactions E txs u blockIndex =
     (if validateCoinbaseTx E (jsIndex txs 0) blockIndex = JBoolean True
         \<and> \<not> hasDuplicates (concat (map txIns txs))
      then (case mapE (\<lambda>tx. validateTransaction E tx u) (drop 1 txs) of
              Inl e \<Rightarrow> Inl e
            | Inr bs \<Rightarrow> Inr (list_all (\<lambda>b. b) bs))
      else Inr False)"
  by (auto simp: validateBlockTransactions_def truthy_validateCoinbaseTx foldl_conj Let_def
      split: sum.splits)

lemma validateBlockTransactions_single:
  "validateBlockTransactions E [t] u blockIndex =
     Inr (validateCoinbaseTx E (Some t) blockIndex = JBoolean True \<and> \<not> hasDuplicates (txIns t))"
  by (simp add: validateBlockTransactions_eq jsIndex_def)

text \<open>
  C9: the inputs \<open>('a1', 2)\<close> and \<open>('a', 12)\<close> name different outputs and have the same
  key \<open>'a12'\<close>, so \<open>hasDuplicates\<close> returns true on them; a block made of a coinbase
  transaction and a valid transaction with these two inputs names three different outputs
  and is rejected by \<open>validateBlockTransactions\<close>.
\<close>

theorem hasDuplicates_key_collision:
  assumes "txIns tx = [\<lparr>txOutId = ''a1'', txOutIndex = 2, signature = s1\<rparr>,
                       \<lparr>txOutId = ''a'', txOutIndex = 12, signature = s2\<rparr>]"
    and "validateTransaction E tx u = Inr True"
  shows "(''a1'', 2 :: int) \<noteq> (''a'', 12)
     \<and> hasDuplicates (txIns tx)
     \<and> distinct (map (\<lambda>txIn. (txOutId txIn, txOutIndex txIn))
                     (concat (map txIns [getCoinbaseTransaction E addr 1, tx])))
     \<and> validateCoinbaseTx E (Some (getCoinbaseTransaction E addr 1)) 1 = JBoolean True
     \<and> validateBlockTransactions E [getCoinbaseTransaction E addr 1, tx] u 1 = Inr False"
proof -
  have dup: "hasDuplicates (txIns tx)"
    by (simp add: assms(1) hasDuplicates_iff numToString_2 numToString_12)
  have dup': "hasDuplicates (concat (map txIns [getCoinbaseTransaction E addr 1, tx]))"
    by (simp add: assms(1) hasDuplicates_iff numToString_2 numToString_12)
  have "distinct (map (\<lambda>txIn. (txOutId txIn, txOutIndex txIn))
                     (concat (map txIns [getCoinbaseTransaction E addr 1, tx])))"
    by (simp add: assms(1) getCoinbaseTransaction_def Let_def)
  with dup dup' show ?thesis
    by (simp add: validateBlockTransactions_eq validateCoinbaseTx_getCoinbaseTransaction)
qed

theorem hasDuplicates_key_collision_witness:
  "hasDuplicates (txIns exampleSpend)
   \<and> validateTransaction testEnv exampleSpend exampleUnspent = Inr True
   \<and> validateBlockTransactions testEnv [getCoinbaseTransaction testEnv ''04aa'' 1, exampleSpend]
        exampleUnspent 1 = Inr False"
proof -
  have 1: "txIns exampleSpend =
      [\<lparr>txOutId = ''a1'', txOutIndex = 2, signature = tx_id exampleSpend @ ''04aa''\<rparr>,
       \<lparr>txOutId = ''a'', txOutIndex = 12, signature = tx_id exampleSpend @ ''04aa''\<rparr>]"
    by (simp add: exampleSpend_def Let_def)
  have 2: "validateTransaction testEnv exampleSpend exampleUnspent = Inr True"
    by (rule exampleSpend_valid)
  show ?thesis
    using hasDuplicates_key_collision [OF 1 2, of "''04aa''"] 2 by simp
qed

subsection \<open>Applying the transactions of a block\<close>

lemma map_enumerate_nth:
  "map (\<lambda>(k, x). f k x) (enumerate 0 xs) = map (\<lambda>k. f k (xs ! k)) [0..<length xs]"
  by (rule nth_equalityI) (simp_all add: nth_enumerate_eq)

lemma updateUnspentTxOuts_eq:
  "updateUnspentTxOuts txs u = filter (\<lambda>x. \<not> consumedBy txs x) u @ concat (map newOutputs txs)"
proof -
  have "findUnspentTxOut (utxo_txOutId x) (utxo_txOutIndex x)
          (map (\<lambda>txIn. \<lparr>utxo_txOutId = txOutId txIn, utxo_txOutIndex = txOutIndex txIn,
                        utxo_address = [], utxo_amount = 0\<rparr>) (concat (map txIns txs))) = None
        \<longleftrightarrow> \<not> consumedBy txs x" for x
    by (auto simp: findUnspentTxOut_def find_None_iff consumedBy_def list_ex_iff)
  then show ?thesis
    by (simp add: updateUnspentTxOuts_def concatArrays_concat newOutputs_def map_enumerate_nth
        Let_def cong: map_cong)
qed

lemma processTransactions_eq:
  "processTransactions E txs u i =
     (case validateBlockTransactions E txs u i of
        Inl e \<Rightarrow> Inl e
      | Inr ok \<Rightarrow>
          if ok then Inr (Some (filter (\<lambda>x. \<not> consumedBy txs x) u @ concat (map newOutputs txs)))
          else Inr None)"
  by (auto simp: processTransactions_def updateUnspentTxOuts_eq split: sum.splits)

lemma addBlockToChain_failed_transactions:
  "(\<nexists>u'. processTransactions E (data b) (unspentTxOuts s) (index b) = Inr (Some u')) \<Longrightarrow>
   snd (addBlockToChain E b s) = s"
  by (auto simp: addBlockToChain_def split: sum.splits option.splits)

text \<open>
  C5: \<open>processTransactions\<close> returns \<open>null\<close> exactly when \<open>validateBlockTransactions\<close>
  returns false, and it throws exactly when that throws. When that returns true, the
  result is the given unspent outputs without those an input of the transactions names,
  followed by one new unspent output for each output of each transaction, keyed by the
  transaction's id and the output's position. On failure nothing is applied: the function
  has no effect besides its result, and \<open>addBlockToChain\<close>, which would store the result,
  leaves the state as it was.
\<close>

theorem processTransactions_all_or_nothing:
  "(processTransactions E txs u i = Inr None \<longleftrightarrow> validateBlockTransactions E txs u i = Inr False)
   \<and> (validateBlockTransactions E txs u i = Inr True \<longleftrightarrow>
        processTransactions E txs u i =
          Inr (Some (filter (\<lambda>x. \<not> consumedBy txs x) u @ concat (map newOutputs txs))))
   \<and> (processTransactions E txs u i = Inl e \<longleftrightarrow> validateBlockTransactions E txs u i = Inl e)
   \<and> ((\<nexists>u'. processTransactions E (data b) (unspentTxOuts s) (index b) = Inr (Some u')) \<longrightarrow>
        snd (addBlockToChain E b s) = s)"
  using addBlockToChain_failed_transactions [of E b s]
  by (auto simp: processTransactions_eq split: sum.splits if_splits)

lemma exampleCoinbase_block:
  "validateBlockTransactions testEnv [exampleCoinbase] u 1 = Inr True"
proof -
  have "validateCoinbaseTx testEnv (Some exampleCoinbase) 1 = JBoolean True"
    by (simp add: exampleCoinbase_def validateCoinbaseTx_getCoinbaseTransaction)
  moreover have "\<not> hasDuplicates (txIns exampleCoinbase)"
    by (simp add: hasDuplicates_iff exampleCoinbase_def getCoinbaseTransaction_def Let_def)
  ultimately show ?thesis
    by (simp add: validateBlockTransactions_single)
qed

lemma emptySignature_block:
  "validateBlockTransactions testEnv [exampleCoinbase, emptySignatureSpend] genesisUnspent 1
     = Inl LibraryError"
proof -
  have "validateCoinbaseTx testEnv (Some exampleCoinbase) 1 = JBoolean True"
    by (simp add: exampleCoinbase_def validateCoinbaseTx_getCoinbaseTransaction)
  moreover have "\<not> hasDuplicates (concat (map txIns [exampleCoinbase, emptySignatureSpend]))"
    by (simp add: hasDuplicates_iff exampleCoinbase_def getCoinbaseTransaction_def Let_def
        emptySignatureSpend_def genesisTransaction_def numToString_1)
  ultimately show ?thesis
    by (simp add: validateBlockTransactions_eq jsIndex_def emptySignatureSpend_raises)
qed

theorem processTransactions_all_or_nothing_witness:
  "processTransactions testEnv [] [] 1 = Inr None
   \<and> snd (addBlockToChain testEnv (genesisBlock\<lparr>index := 1, data := []\<rparr>)
            \<lparr>blockchain = [genesisBlock], unspentTxOuts = []\<rparr>)
       = \<lparr>blockchain = [genesisBlock], unspentTxOuts = []\<rparr>
   \<and> processTransactions testEnv [exampleCoinbase] exampleUnspent 1
       = Inr (Some (exampleUnspent @
            [\<lparr>utxo_txOutId = tx_id exampleCoinbase, utxo_txOutIndex = 0,
              utxo_address = ''04aa'', utxo_amount = 50\<rparr>]))
   \<and> processTransactions testEnv [exampleCoinbase, emptySignatureSpend] genesisUnspent 1
       = Inl LibraryError"
proof -
  have 1: "validateBlockTransactions testEnv [] [] 1 = Inr False"
    by (simp add: validateBlockTransactions_eq jsIndex_def validateCoinbaseTx_def)
  have 2: "validateBlockTransactions testEnv [exampleCoinbase] exampleUnspent 1 = Inr True"
    by (rule exampleCoinbase_block)
  have 3: "filter (\<lambda>x. \<not> consumedBy [exampleCoinbase] x) exampleUnspent = exampleUnspent"
    by (simp add: consumedBy_def exampleCoinbase_def getCoinbaseTransaction_def Let_def exampleUnspent_def)
  have 4: "concat (map newOutputs [exampleCoinbase]) =
       [\<lparr>utxo_txOutId = tx_id exampleCoinbase, utxo_txOutIndex = 0,
              utxo_address = ''04aa'', utxo_amount = 50\<rparr>]"
    by (simp add: newOutputs_def exampleCoinbase_def getCoinbaseTransaction_def Let_def COINBASE_AMOUNT_def)
  have 5: "\<nexists>u'. processTransactions testEnv (data (genesisBlock\<lparr>index := 1, data := []\<rparr>))
             (unspentTxOuts \<lparr>blockchain = [genesisBlock], unspentTxOuts = []\<rparr>)
             (index (genesisBlock\<lparr>index := 1, data := []\<rparr>)) = Inr (Some u')"
    using 1 by (simp add: processTransactions_eq)
  show ?thesis
    using processTransactions_all_or_nothing [of testEnv "[]" "[]" 1 _
        "genesisBlock\<lparr>index := 1, data := []\<rparr>" "\<lparr>blockchain = [genesisBlock], unspentTxOuts = []\<rparr>"]
      processTransactions_all_or_nothing [of testEnv "[exampleCoinbase]" exampleUnspent 1]
      processTransactions_all_or_nothing
        [of testEnv "[exampleCoinbase, emptySignatureSpend]" genesisUnspent 1 LibraryError]
      1 2 3 4 5 emptySignature_block
    by simp
qed

section \<open>The structure check\<close>

lemma isValidBlockStructure_object:
  "isValidBlockStructure (JObject fs) =
     Inr (typeof (field fs ''index'') = ''number''
          \<and> typeof (field fs ''hash'') = ''string''
          \<and> typeof (field fs ''previousHash'') = ''string''
          \<and> typeof (field fs ''timestamp'') = ''number''
          \<and> typeof (field fs ''data'') = ''object'')"
  by (simp add: isValidBlockStructure_def hasTypeOf_def andE_def field_def)

lemma field_update_other: "k \<noteq> k' \<Longrightarrow> field (AList.update k' v fs) k = field fs k"
  by (simp add: field_def update_conv')

lemma field_delete_other: "k \<noteq> k' \<Longrightarrow> field (AList.delete k' fs) k = field fs k"
  by (simp add: field_def delete_conv')

text \<open>
  C10: \<open>isValidBlockStructure\<close> looks at the types of \<open>index\<close>, \<open>hash\<close>,
  \<open>previousHash\<close>, \<open>timestamp\<close> and \<open>data\<close> only. On every object in which the first
  and fourth are numbers, the second and third strings and the fifth an object, it returns
  true, and it still does when \<open>difficulty\<close> and \<open>nonce\<close> are overwritten with values
  of any type or removed from the object.
\<close>

theorem isValidBlockStructure_ignores_difficulty_and_nonce:
  assumes "typeof (field fs ''index'') = ''number''"
    and "typeof (field fs ''hash'') = ''string''"
    and "typeof (field fs ''previousHash'') = ''string''"
    and "typeof (field fs ''timestamp'') = ''number''"
    and "typeof (field fs ''data'') = ''object''"
  shows "isValidBlockStructure (JObject fs) = Inr True
     \<and> isValidBlockStructure (JObject (AList.update ''difficulty'' d (AList.update ''nonce'' n fs))) = Inr True
     \<and> isValidBlockStructure (JObject (AList.delete ''difficulty'' (AList.delete ''nonce'' fs))) = Inr True"
  using assms
  by (simp add: isValidBlockStructure_object field_update_other field_delete_other)

theorem isValidBlockStructure_ignores_difficulty_and_nonce_witness:
  "isValidBlockStructure
     (JObject [(''index'', JNumber 1), (''hash'', JString ''ab''), (''previousHash'', JString ''cd''),
               (''timestamp'', JNumber 5), (''data'', JArray [])]) = Inr True
   \<and> isValidBlockStructure
     (JObject [(''index'', JNumber 1), (''hash'', JString ''ab''), (''previousHash'', JString ''cd''),
               (''timestamp'', JNumber 5), (''data'', JArray []),
               (''nonce'', JString ''x''), (''difficulty'', JNull)]) = Inr True"
  using isValidBlockStructure_ignores_difficulty_and_nonce
    [of "[(''index'', JNumber 1), (''hash'', JString ''ab''), (''previousHash'', JString ''cd''),
               (''timestamp'', JNumber 5), (''data'', JArray [])]" JNull "JString ''x''"]
  by (simp add: field_def)

lemma isValidBlockStructure_blockJS: "isValidBlockStructure (blockJS b) = Inr True"
  by (simp add: isValidBlockStructure_object blockJS_def field_def)

section \<open>Validation of a new block\<close>

text \<open>
  On a block of the declared type the structure check always passes, and the only
  exception left is the \<open>RangeError\<close> of \<open>'0'.repeat\<close> on a negative difficulty. The
  result of \<open>hashMatchesDifficulty\<close> itself does not occur in the outcome.
\<close>

lemma isValidNewBlock_eq:
  "isValidNewBlock E b (Some p) =
     (if index p + 1 \<noteq> index b \<or> hash p \<noteq> previousHash b \<or> \<not> isValidTimestamp E b p
         \<or> \<not> hashMatchesBlockContent E b then Inr False
      else if difficulty b < 0 then Inl RangeError else Inr True)"
  by (auto simp: isValidNewBlock_def isValidBlockStructure_blockJS hasValidHash_def
      hashMatchesDifficulty_def Let_def)

text \<open>
  C1 does not hold of the code: a candidate that follows its predecessor (index, previous
  hash, timestamp) and whose hash is the digest of its content is accepted by
  \<open>isValidNewBlock\<close> although \<open>hashMatchesDifficulty\<close> returns false on its hash and
  difficulty.
\<close>

theorem isValidNewBlock_accepts_unmet_difficulty:
  assumes "index newBlock = index previousBlock + 1"
    and "previousHash newBlock = hash previousBlock"
    and "isValidTimestamp E newBlock previousBlock"
    and "hashMatchesBlockContent E newBlock"
    and "hashMatchesDifficulty E (hash newBlock) (difficulty newBlock) = Inr False"
  shows "isValidNewBlock E newBlock (Some previousBlock) = Inr True"
  using assms by (auto simp: isValidNewBlock_eq hashMatchesDifficulty_def Let_def split: if_splits)

lemma exampleBlock_fields:
  "index (exampleBlock d n) = 1" "previousHash (exampleBlock d n) = hash genesisBlock"
  "timestamp (exampleBlock d n) = 1465154710" "data (exampleBlock d n) = [exampleCoinbase]"
  "difficulty (exampleBlock d n) = d" "nonce (exampleBlock d n) = n"
  by (simp_all add: exampleBlock_def Let_def)

lemma exampleBlock_hashMatchesBlockContent: "hashMatchesBlockContent testEnv (exampleBlock d n)"
  by (simp add: hashMatchesBlockContent_def exampleBlock_def Let_def calculateHashForBlock_def)

lemma exampleBlock_isValidTimestamp: "isValidTimestamp testEnv (exampleBlock d n) genesisBlock"
  by (simp add: isValidTimestamp_def exampleBlock_fields genesisBlock_def testEnv_def)

lemma testDigest_1: "testDigest (CHR ''1'' # s) = ''31'' @ hexEncode s"
proof -
  have "CHR ''1'' # s \<noteq> genesisContent"
    by (simp add: genesisContent_def)
  moreover have "hexDigit 3 = CHR ''3''" "hexDigit 1 = CHR ''1''"
    by code_simp+
  ultimately show ?thesis
    by (simp add: testDigest_def hexEncode_def)
qed

lemma hexToBinarySpec_31:
  "hexToBinarySpec (CHR ''3'' # CHR ''1'' # s) = ''00110001'' @ hexToBinarySpec s"
  by (simp add: hexToBinarySpec_def hexDigitBits_def)

lemma exampleBlock_hash: "\<exists>s. hash (exampleBlock d n) = ''31'' @ s"
  by (simp add: exampleBlock_def Let_def calculateHashForBlock_def calculateHash_def testEnv_def
      numToString_1 testDigest_1)

text \<open>
  The hash of \<open>exampleBlock 5 n\<close> starts with the hexadecimal digits \<open>31\<close>, that is with
  the bits \<open>00110001\<close>, and not with five zeros.
\<close>

lemma exampleBlock_5_difficulty:
  "hashMatchesDifficulty testEnv (hash (exampleBlock 5 n)) (difficulty (exampleBlock 5 n)) = Inr False"
proof -
  obtain s where "hash (exampleBlock 5 n) = ''31'' @ s"
    using exampleBlock_hash by blast
  then show ?thesis
    by (simp add: hashMatchesDifficulty_def exampleBlock_fields testEnv_def hexToBinarySpec_31
        eval_nat_numeral)
qed

theorem isValidNewBlock_accepts_unmet_difficulty_witness:
  "hashMatchesDifficulty testEnv (hash (exampleBlock 5 0)) (difficulty (exampleBlock 5 0)) = Inr False
   \<and> isValidNewBlock testEnv (exampleBlock 5 0) (Some genesisBlock) = Inr True"
  using isValidNewBlock_accepts_unmet_difficulty [of "exampleBlock 5 0" genesisBlock testEnv]
    exampleBlock_hashMatchesBlockContent [of 5 0] exampleBlock_isValidTimestamp [of 5 0]
    exampleBlock_5_difficulty
  by (simp add: exampleBlock_fields genesisBlock_def)

lemma isValidNewBlock_exampleBlock:
  "0 \<le> d \<Longrightarrow> isValidNewBlock testEnv (exampleBlock d n) (Some genesisBlock) = Inr True"
  using exampleBlock_hashMatchesBlockContent [of d n] exampleBlock_isValidTimestamp [of d n]
  by (simp add: isValidNewBlock_eq exampleBlock_fields) (simp add: genesisBlock_def)

text \<open>A block with the coinbase transaction for its index, on top of any block.\<close>

lemma exampleBlockOn_fields:
  "index (exampleBlockOn p d) = index p + 1" "previousHash (exampleBlockOn p d) = hash p"
  "timestamp (exampleBlockOn p d) = 1465154710"
  "data (exampleBlockOn p d) = [getCoinbaseTransaction testEnv ''04aa'' (index p + 1)]"
  "difficulty (exampleBlockOn p d) = d"
  by (simp_all add: exampleBlockOn_def Let_def)

lemma exampleBlockOn_genesis: "exampleBlockOn genesisBlock d = exampleBlock d 0"
proof -
  have "index genesisBlock = 0"
    by (simp add: genesisBlock_def)
  then show ?thesis
    by (simp add: exampleBlockOn_def exampleBlock_def exampleCoinbase_def)
qed

lemma isValidNewBlock_exampleBlockOn:
  assumes "0 \<le> d" and "timestamp p < 1465154770"
  shows "isValidNewBlock testEnv (exampleBlockOn p d) (Some p) = Inr True"
proof -
  have "hashMatchesBlockContent testEnv (exampleBlockOn p d)"
    by (simp add: hashMatchesBlockContent_def exampleBlockOn_def Let_def calculateHashForBlock_def)
  moreover have "isValidTimestamp testEnv (exampleBlockOn p d) p"
    using assms(2) by (simp add: isValidTimestamp_def exampleBlockOn_fields testEnv_def)
  ultimately show ?thesis
    using assms(1) by (simp add: isValidNewBlock_eq exampleBlockOn_fields)
qed

section \<open>Validation of a chain\<close>

lemma isValidChainFrom_iff:
  "0 < i \<Longrightarrow> i \<le> length bs \<Longrightarrow>
   isValidChainFrom E bs i u = Inr (Some r) \<longleftrightarrow>
     list_all (\<lambda>j. isValidNewBlock E (bs ! j) (Some (bs ! (j - 1))) = Inr True) [i..<length bs]
     \<and> foldTransactions E (drop i bs) u = Inr (Some r)"
proof (induction "length bs - i" arbitrary: i u)
  case 0
  then show ?case
    by (simp add: isValidChainFrom.simps)
next
  case (Suc k)
  then have lt: "i < length bs" and k: "k = length bs - Suc i" by simp_all
  have idx: "jsIndex bs (int i - 1) = Some (bs ! (i - 1))"
    using lt \<open>0 < i\<close> by (auto simp: jsIndex_def nat_diff_distrib')
  have IH: "isValidChainFrom E bs (Suc i) u' = Inr (Some r) \<longleftrightarrow>
     list_all (\<lambda>j. isValidNewBlock E (bs ! j) (Some (bs ! (j - 1))) = Inr True) [Suc i..<length bs]
     \<and> foldTransactions E (drop (Suc i) bs) u' = Inr (Some r)" for u'
    using Suc.hyps(1) [of "Suc i" u'] k lt by simp
  show ?case
    using lt \<open>0 < i\<close>
    by (subst isValidChainFrom.simps)
       (auto simp: idx IH upt_conv_Cons Cons_nth_drop_Suc [symmetric] Let_def
             split: sum.splits option.splits)
qed

lemma isValidChain_Some_iff:
  "isValidChain E bs = Inr (Some r) \<longleftrightarrow>
     (\<exists>rest. bs = genesisBlock # rest) \<and> linksValid E bs \<and> derivedUnspentTxOuts E bs = Inr (Some r)"
proof (cases bs)
  case Nil
  then show ?thesis
    by (simp add: isValidChain_def isValidGenesis_def jsIndex_def)
next
  case (Cons b rest)
  show ?thesis
  proof (cases "b = genesisBlock")
    case False
    with Cons show ?thesis
      by (simp add: isValidChain_def isValidGenesis_def jsIndex_def)
  next
    case True
    have "isValidChainFrom E bs 0 [] = Inr (Some r) \<longleftrightarrow>
        (\<exists>u. processTransactions E (data b) [] (index b) = Inr (Some u)
             \<and> isValidChainFrom E bs 1 u = Inr (Some r))"
      using Cons by (subst isValidChainFrom.simps) (auto split: sum.splits option.splits)
    also have "\<dots> \<longleftrightarrow> linksValid E bs \<and> derivedUnspentTxOuts E bs = Inr (Some r)"
      using Cons
      by (auto simp: isValidChainFrom_iff linksValid_def derivedUnspentTxOuts_def
          split: sum.splits option.splits)
    finally show ?thesis
      using Cons True by (simp add: isValidChain_def isValidGenesis_def jsIndex_def)
  qed
qed

lemma isValidChain_wrong_genesis:
  "b \<noteq> genesisBlock \<Longrightarrow> isValidChain E (b # rest) = Inr None"
  by (simp add: isValidChain_def isValidGenesis_def jsIndex_def)

lemma isValidChain_empty: "isValidChain E [] = Inr None"
  by (simp add: isValidChain_def isValidGenesis_def jsIndex_def)

text \<open>
  C4: a chain whose first block differs from the genesis block is rejected whatever
  follows it, and so is the empty chain. A chain is accepted, with the unspent outputs
  \<open>r\<close>, exactly when it starts with the genesis block, every later block passes
  \<open>isValidNewBlock\<close> against its predecessor, and the transactions of all its blocks apply
  in order, from no unspent outputs, giving \<open>r\<close>.
\<close>

theorem isValidChain_genesis_and_links:
  "(b \<noteq> genesisBlock \<longrightarrow> isValidChain E (b # rest) = Inr None)
   \<and> isValidChain E [] = Inr None
   \<and> (isValidChain E bs = Inr (Some r) \<longleftrightarrow>
        (\<exists>rest. bs = genesisBlock # rest) \<and> linksValid E bs
        \<and> derivedUnspentTxOuts E bs = Inr (Some r))"
  using isValidChain_Some_iff [of E bs r]
  by (simp add: isValidChain_wrong_genesis isValidChain_empty)

subsection \<open>The example chain\<close>

lemma numToString_0: "numToString 0 = ''0''"
  by code_simp

lemma numToString_50: "numToString 50 = ''50''"
  by code_simp

lemma genesisTransaction_id: "getTransactionId testEnv genesisTransaction = tx_id genesisTransaction"
  by (simp add: getTransactionId_def genesisTransaction_def concatStrings_concat numToString_0
      numToString_50 testEnv_def testDigest_def genesisContent_def)

lemma processTransactions_genesis:
  "processTransactions testEnv (data genesisBlock) [] 0 = Inr (Some genesisUnspent)"
proof -
  have "validateCoinbaseTx testEnv (Some genesisTransaction) 0 = JBoolean True"
    using genesisTransaction_id
    by (simp add: validateCoinbaseTx_true_iff) (simp add: genesisTransaction_def)
  moreover have "\<not> hasDuplicates (txIns genesisTransaction)"
    by (simp add: hasDuplicates_iff genesisTransaction_def)
  moreover have "filter (\<lambda>x. \<not> consumedBy [genesisTransaction] x) [] @ concat (map newOutputs [genesisTransaction])
      = genesisUnspent"
    by (simp add: newOutputs_def genesisTransaction_def genesisUnspent_def)
  ultimately show ?thesis
    by (simp add: processTransactions_eq validateBlockTransactions_single genesisBlock_def)
qed

lemma initialEngine_testEnv:
  "initialEngine testEnv = Some \<lparr>blockchain = [genesisBlock], unspentTxOuts = genesisUnspent\<rparr>"
  by (simp add: initialEngine_def processTransactions_genesis)

text \<open>
  A block that holds only the coinbase transaction for its index adds the 50 coins of
  that transaction to the unspent outputs.
\<close>

lemma processTransactions_coinbase:
  assumes "\<forall>x\<in>set u. utxo_txOutIndex x \<noteq> i"
  shows "processTransactions testEnv [getCoinbaseTransaction testEnv a i] u i =
     Inr (Some (u @ [\<lparr>utxo_txOutId = tx_id (getCoinbaseTransaction testEnv a i), utxo_txOutIndex = 0,
                       utxo_address = a, utxo_amount = 50\<rparr>]))"
proof -
  let ?c = "getCoinbaseTransaction testEnv a i"
  have "validateCoinbaseTx testEnv (Some ?c) i = JBoolean True"
    by (rule validateCoinbaseTx_getCoinbaseTransaction)
  moreover have "\<not> hasDuplicates (txIns ?c)"
    by (simp add: hasDuplicates_iff getCoinbaseTransaction_def Let_def)
  moreover have "filter (\<lambda>x. \<not> consumedBy [?c] x) u = u"
    using assms by (auto simp: filter_id_conv consumedBy_def getCoinbaseTransaction_def Let_def)
  moreover have "concat (map newOutputs [?c]) =
       [\<lparr>utxo_txOutId = tx_id ?c, utxo_txOutIndex = 0, utxo_address = a, utxo_amount = 50\<rparr>]"
    by (simp add: newOutputs_def getCoinbaseTransaction_def Let_def COINBASE_AMOUNT_def)
  ultimately show ?thesis
    by (simp add: processTransactions_eq validateBlockTransactions_single)
qed

lemma processTransactions_exampleCoinbase:
  "processTransactions testEnv [exampleCoinbase] genesisUnspent 1 = Inr (Some exampleUnspentAfter)"
  using processTransactions_coinbase [of genesisUnspent 1 "''04aa''"]
  by (simp add: exampleCoinbase_def exampleUnspentAfter_def genesisUnspent_def)

lemma processTransactions_second:
  "processTransactions testEnv [getCoinbaseTransaction testEnv ''04aa'' 2] exampleUnspentAfter 2
     = Inr (Some exampleUnspentTwo)"
  using processTransactions_coinbase [of exampleUnspentAfter 2 "''04aa''"]
  by (simp add: exampleUnspentTwo_def exampleUnspentAfter_def genesisUnspent_def)

lemma addBlockToChain_exampleBlock:
  "0 \<le> d \<Longrightarrow>
   addBlockToChain testEnv (exampleBlock d n) \<lparr>blockchain = [genesisBlock], unspentTxOuts = genesisUnspent\<rparr>
     = (Inr True, \<lparr>blockchain = [genesisBlock, exampleBlock d n], unspentTxOuts = exampleUnspentAfter\<rparr>)"
  by (simp add: addBlockToChain_def getLatestBlock_def jsIndex_def isValidNewBlock_exampleBlock
      exampleBlock_fields processTransactions_exampleCoinbase)

lemma derivedUnspentTxOuts_example:
  "derivedUnspentTxOuts testEnv [genesisBlock, exampleBlock d n] = Inr (Some exampleUnspentAfter)"
proof -
  have "processTransactions testEnv (data genesisBlock) [] (index genesisBlock) = Inr (Some genesisUnspent)"
    using processTransactions_genesis by (simp add: genesisBlock_def)
  then show ?thesis
    by (simp add: derivedUnspentTxOuts_def exampleBlock_fields processTransactions_exampleCoinbase)
qed

lemma linksValid_example: "0 \<le> d \<Longrightarrow> linksValid testEnv [genesisBlock, exampleBlock d n]"
  by (simp add: linksValid_def isValidNewBlock_exampleBlock)

lemma isValidChain_example:
  "0 \<le> d \<Longrightarrow> isValidChain testEnv [genesisBlock, exampleBlock d n] = Inr (Some exampleUnspentAfter)"
  by (simp add: isValidChain_Some_iff linksValid_example derivedUnspentTxOuts_example)

lemma exampleBlock_not_genesis: "exampleBlock d n \<noteq> genesisBlock"
proof
  assume "exampleBlock d n = genesisBlock"
  then have "index (exampleBlock d n) = index genesisBlock" by simp
  then show False by (simp add: exampleBlock_fields genesisBlock_def)
qed

theorem isValidChain_genesis_and_links_witness:
  "isValidChain testEnv [exampleBlock 5 0, genesisBlock] = Inr None
   \<and> isValidChain testEnv [genesisBlock, exampleBlock 5 0] = Inr (Some exampleUnspentAfter)"
  using isValidChain_genesis_and_links
      [of "exampleBlock 5 0" testEnv "[genesisBlock]" "[genesisBlock, exampleBlock 5 0]" exampleUnspentAfter]
    exampleBlock_not_genesis [of 5 0] linksValid_example [of 5 0] derivedUnspentTxOuts_example [of 5 0]
  by simp


text \<open>The chains of three blocks.\<close>

lemma exampleChain_eq:
  "exampleChain d1 d2 = [genesisBlock, exampleBlock d1 0, exampleBlockOn (exampleBlock d1 0) d2]"
  by (simp add: exampleChain_def exampleBlockOn_genesis)

lemma isValidChain_exampleChain:
  assumes "0 \<le> d1" and "0 \<le> d2"
  shows "isValidChain testEnv (exampleChain d1 d2) = Inr (Some exampleUnspentTwo)"
proof -
  have g: "processTransactions testEnv (data genesisBlock) [] (index genesisBlock) = Inr (Some genesisUnspent)"
    using processTransactions_genesis by (simp add: genesisBlock_def)
  have 1: "isValidNewBlock testEnv (exampleBlockOn (exampleBlock d1 0) d2) (Some (exampleBlock d1 0)) = Inr True"
    using assms(2) by (intro isValidNewBlock_exampleBlockOn) (simp_all add: exampleBlock_fields)
  have "[1..<3] = [1, 2]"
    by (simp add: upt_rec)
  then have l: "linksValid testEnv (exampleChain d1 d2)"
    using assms(1) 1 by (simp add: linksValid_def exampleChain_eq isValidNewBlock_exampleBlock)
  have d: "derivedUnspentTxOuts testEnv (exampleChain d1 d2) = Inr (Some exampleUnspentTwo)"
    by (simp add: derivedUnspentTxOuts_def exampleChain_eq g exampleBlock_fields exampleBlockOn_fields
        processTransactions_exampleCoinbase processTransactions_second)
  show ?thesis
    by (simp add: isValidChain_Some_iff l d) (simp add: exampleChain_def)
qed

section \<open>The unspent outputs of a reachable state\<close>

text \<open>Nothing that validates or applies transactions reads the clock.\<close>

lemma getTransactionId_clock [simp]:
  "getTransactionId (E\<lparr>getCurrentTimestamp := t\<rparr>) = getTransactionId E"
  by (rule ext) (simp add: getTransactionId_def)

lemma validateTxIn_clock [simp]:
  "validateTxIn (E\<lparr>getCurrentTimestamp := t\<rparr>) = validateTxIn E"
  by (intro ext) (simp add: validateTxIn_def split: option.splits)

lemma validateTransaction_clock [simp]:
  "validateTransaction (E\<lparr>getCurrentTimestamp := t\<rparr>) = validateTransaction E"
  by (intro ext) (simp add: validateTransaction_def)

lemma validateCoinbaseTx_clock [simp]:
  "validateCoinbaseTx (E\<lparr>getCurrentTimestamp := t\<rparr>) = validateCoinbaseTx E"
  by (intro ext) (simp add: validateCoinbaseTx_def split: option.splits)

lemma processTransactions_clock [simp]:
  "processTransactions (E\<lparr>getCurrentTimestamp := t\<rparr>) = processTransactions E"
  by (intro ext) (simp add: processTransactions_def validateBlockTransactions_def)

lemma foldTransactions_clock [simp]:
  "foldTransactions (E\<lparr>getCurrentTimestamp := t\<rparr>) bs u = foldTransactions E bs u"
  by (induction bs arbitrary: u) (auto split: sum.splits option.splits)

lemma foldTransactions_snoc:
  "foldTransactions E bs u = Inr (Some u') \<Longrightarrow>
   foldTransactions E (bs @ [b]) u = processTransactions E (data b) u' (index b)"
  by (induction bs arbitrary: u) (auto split: sum.splits option.splits)

text \<open>
  What a call can leave behind: the state as it was, or the one new state the function
  assigns.
\<close>

lemma addBlockToChain_cases:
  assumes "addBlockToChain E b s = (r, s')"
  shows "s' = s \<or> (\<exists>u. processTransactions E (data b) (unspentTxOuts s) (index b) = Inr (Some u)
                      \<and> s' = \<lparr>blockchain = blockchain s @ [b], unspentTxOuts = u\<rparr>)"
  using assms by (auto simp: addBlockToChain_def split: sum.splits option.splits if_splits)

lemma replaceChain_cases:
  assumes "replaceChain E bs s = (r, s')"
  shows "s' = s \<or> (\<exists>u. isValidChain E bs = Inr (Some u)
                      \<and> s' = \<lparr>blockchain = bs, unspentTxOuts = u\<rparr>)"
  using assms by (auto simp: replaceChain_def split: sum.splits option.splits if_splits)

lemma reachable_derived:
  "reachable E s \<Longrightarrow> derivedUnspentTxOuts E (blockchain s) = Inr (Some (unspentTxOuts s))"
proof (induction rule: reachable.induct)
  case (start s)
  then show ?case
    by (auto simp: initialEngine_def derivedUnspentTxOuts_def genesisBlock_def
        split: sum.splits option.splits)
next
  case (add s now newBlock r s')
  from addBlockToChain_cases [OF add.hyps(2)] add.IH show ?case
    by (auto simp: derivedUnspentTxOuts_def foldTransactions_snoc)
next
  case (replace s now newBlocks r s')
  from replaceChain_cases [OF replace.hyps(2)] replace.IH show ?case
    by (auto simp: isValidChain_Some_iff derivedUnspentTxOuts_def)
qed

text \<open>
  C2: in every reachable state the unspent outputs are what folding
  \<open>processTransactions\<close> over the blocks of the chain, in order and from no unspent
  outputs, gives. The derivation is a function of the chain and of the digest and
  signature functions alone: deriving again, at any other time, gives the same result.
\<close>

theorem unspentTxOuts_derived_from_chain:
  assumes "reachable E s"
  shows "derivedUnspentTxOuts E (blockchain s) = Inr (Some (unspentTxOuts s))
     \<and> derivedUnspentTxOuts (E\<lparr>getCurrentTimestamp := t\<rparr>) (blockchain s)
         = derivedUnspentTxOuts E (blockchain s)"
  using reachable_derived [OF assms] by (simp add: derivedUnspentTxOuts_def)

theorem unspentTxOuts_derived_from_chain_witness:
  "reachable testEnv \<lparr>blockchain = [genesisBlock, exampleBlock 5 0], unspentTxOuts = exampleUnspentAfter\<rparr>
   \<and> derivedUnspentTxOuts testEnv [genesisBlock, exampleBlock 5 0] = Inr (Some exampleUnspentAfter)"
proof -
  have "reachable testEnv \<lparr>blockchain = [genesisBlock], unspentTxOuts = genesisUnspent\<rparr>"
    by (rule reachable.start) (rule initialEngine_testEnv)
  moreover have "testEnv\<lparr>getCurrentTimestamp := 1465154800\<rparr> = testEnv"
    by (simp add: testEnv_def)
  ultimately have r: "reachable testEnv
      \<lparr>blockchain = [genesisBlock, exampleBlock 5 0], unspentTxOuts = exampleUnspentAfter\<rparr>"
    using reachable.add [of testEnv _ 1465154800 "exampleBlock 5 0"] addBlockToChain_exampleBlock [of 5 0]
    by simp
  show ?thesis
    using r unspentTxOuts_derived_from_chain [OF r] by simp
qed

section \<open>The difficulty of the next block\<close>












subsection \<open>A chain of eleven blocks\<close>







section \<open>Replacing the chain\<close>

lemma member_le_sum_list_int:
  "\<forall>x\<in>set xs. (0 :: int) \<le> x \<Longrightarrow> a \<in> set xs \<Longrightarrow> a \<le> sum_list xs"
proof (induction xs)
  case Nil
  then show ?case by simp
next
  case (Cons x xs)
  have "0 \<le> sum_list xs"
    using Cons.prems(1) by (intro sum_list_nonneg) simp
  with Cons show ?case by auto
qed

text \<open>
  The accumulated difficulty of a chain of non-negative difficulties whose exact sum of
  powers of two stays within \<open>2^53\<close> is that sum.
\<close>

lemma getAccumulatedDifficulty_exact:
  assumes "bs \<noteq> []" and "\<forall>b\<in>set bs. 0 \<le> difficulty b" and "accumulatedDifficulty bs \<le> 2 ^ 53"
  shows "getAccumulatedDifficulty bs = Inr (num (accumulatedDifficulty bs))"
proof -
  obtain b rest where bs: "bs = b # rest"
    using assms(1) by (cases bs) auto
  have p: "jsPow2 (difficulty x) = num (2 ^ nat (difficulty x))" if "x \<in> set bs" for x
  proof -
    have "(2 :: int) ^ nat (difficulty x) \<in> set (map (\<lambda>b. 2 ^ nat (difficulty b)) bs)"
      using that by auto
    then have "(2 :: int) ^ nat (difficulty x) \<le> accumulatedDifficulty bs"
      unfolding accumulatedDifficulty_def by (intro member_le_sum_list_int) auto
    then have le: "(2 :: int) ^ nat (difficulty x) \<le> 2 ^ 53"
      using assms(3) by simp
    have one: "(1 :: int) < 2"
      by simp
    have "nat (difficulty x) \<le> 53"
      using power_le_imp_le_exp [OF one le] .
    then show ?thesis
      using assms(2) that by (intro jsPow2_exact) auto
  qed
  have m: "map (\<lambda>d. jsPow2 d) (map difficulty rest) = map num (map (\<lambda>b. 2 ^ nat (difficulty b)) rest)"
    using p by (simp add: bs)
  have pb: "jsPow2 (difficulty b) = num (2 ^ nat (difficulty b))"
    using p [of b] by (simp add: bs)
  have f: "foldl (\<lambda>a b. jsAdd a b) (num (2 ^ nat (difficulty b))) (map num (map (\<lambda>b. 2 ^ nat (difficulty b)) rest))
      = num (2 ^ nat (difficulty b) + sum_list (map (\<lambda>b. 2 ^ nat (difficulty b)) rest))"
    using assms(3) by (intro foldl_jsAdd_num) (auto simp: bs accumulatedDifficulty_def)
  have "getAccumulatedDifficulty bs =
      Inr (foldl (\<lambda>a b. jsAdd a b) (jsPow2 (difficulty b)) (map (\<lambda>d. jsPow2 d) (map difficulty rest)))"
    by (simp add: getAccumulatedDifficulty_def bs)
  also have "\<dots> = Inr (num (2 ^ nat (difficulty b) + sum_list (map (\<lambda>b. 2 ^ nat (difficulty b)) rest)))"
    by (simp only: m pb f)
  also have "\<dots> = Inr (num (accumulatedDifficulty bs))"
    by (simp add: accumulatedDifficulty_def bs)
  finally show ?thesis .
qed

lemma replaceChain_eq:
  "snd (replaceChain E newBlocks s) =
     (case isValidChain E newBlocks of
        Inr (Some u) \<Rightarrow>
          (case getAccumulatedDifficulty newBlocks of
             Inr dNew \<Rightarrow>
               (case getAccumulatedDifficulty (blockchain s) of
                  Inr dCurrent \<Rightarrow>
                    if jsLess dCurrent dNew then \<lparr>blockchain = newBlocks, unspentTxOuts = u\<rparr> else s
                | Inl e \<Rightarrow> s)
           | Inl e \<Rightarrow> s)
      | _ \<Rightarrow> s)"
  by (auto simp: replaceChain_def split: sum.splits option.splits)

subsection \<open>Two chains of equal weight\<close>

lemma pow2_53: "(2 :: int) ^ nat 53 = 9007199254740992"
  by simp

lemma exampleChain_difficulties:
  "map difficulty (exampleChain d1 d2) = [0, d1, d2]"
  by (simp add: exampleChain_eq exampleBlock_fields exampleBlockOn_fields) (simp add: genesisBlock_def)

lemma jsPow2_0: "jsPow2 0 = num 1"
  using jsPow2_exact [of 0] by simp

lemma jsPow2_53: "jsPow2 53 = num 9007199254740992"
  using jsPow2_exact [of 53] by (simp add: pow2_53)

lemma getAccumulatedDifficulty_0_53:
  "getAccumulatedDifficulty (exampleChain 0 53) = Inr (num 9007199254740994)"
proof -
  have "jsAdd (num 1) (num 1) = num 2"
    using jsAdd_num [of 1 1] by simp
  then show ?thesis
    by (simp add: getAccumulatedDifficulty_def exampleChain_difficulties jsPow2_0 jsPow2_53
        jsAdd_2_53_2)
qed

lemma getAccumulatedDifficulty_53_0:
  "getAccumulatedDifficulty (exampleChain 53 0) = Inr (num 9007199254740992)"
  by (simp add: getAccumulatedDifficulty_def exampleChain_difficulties jsPow2_0 jsPow2_53
      jsAdd_1_2_53 jsAdd_2_53_1)

lemma accumulatedDifficulty_exampleChain:
  "accumulatedDifficulty (exampleChain 0 53) = 9007199254740994"
  "accumulatedDifficulty (exampleChain 53 0) = 9007199254740994"
proof -
  have "accumulatedDifficulty bs = sum_list (map (\<lambda>d. 2 ^ nat d) (map difficulty bs))" for bs
    by (simp add: accumulatedDifficulty_def comp_def)
  then show "accumulatedDifficulty (exampleChain 0 53) = 9007199254740994"
    "accumulatedDifficulty (exampleChain 53 0) = 9007199254740994"
    by (simp_all only: exampleChain_difficulties) (simp_all add: pow2_53)
qed

lemma exampleChain_distinct: "exampleChain 0 53 \<noteq> exampleChain 53 0"
proof
  assume "exampleChain 0 53 = exampleChain 53 0"
  then have "map difficulty (exampleChain 0 53) = map difficulty (exampleChain 53 0)"
    by simp
  then show False
    by (simp only: exampleChain_difficulties) simp
qed

lemma reachable_exampleChain_53_0:
  "reachable testEnv \<lparr>blockchain = exampleChain 53 0, unspentTxOuts = exampleUnspentTwo\<rparr>"
proof -
  have "reachable testEnv \<lparr>blockchain = [genesisBlock], unspentTxOuts = genesisUnspent\<rparr>"
    by (rule reachable.start) (rule initialEngine_testEnv)
  moreover have "testEnv\<lparr>getCurrentTimestamp := 1465154800\<rparr> = testEnv"
    by (simp add: testEnv_def)
  moreover have "getAccumulatedDifficulty [genesisBlock] = Inr (num 1)"
    by (simp add: getAccumulatedDifficulty_def jsPow2_0) (simp add: genesisBlock_def jsPow2_0)
  ultimately show ?thesis
    using reachable.replace [of testEnv "\<lparr>blockchain = [genesisBlock], unspentTxOuts = genesisUnspent\<rparr>"
        1465154800 "exampleChain 53 0"]
    by (simp add: replaceChain_def isValidChain_exampleChain getAccumulatedDifficulty_53_0)
qed

text \<open>
  C3, as stated, fails on the code. The chains \<open>exampleChain 0 53\<close> and
  \<open>exampleChain 53 0\<close> are valid and have the same accumulated difficulty,
  \<open>2^0 + 2^0 + 2^53 = 2^0 + 2^53 + 2^0\<close>. With the second as the chain of a reachable
  state, \<open>replaceChain\<close> on the first one stores it: added from left to right as numbers
  of the language, the first sum is \<open>2^53 + 2\<close> and the second, where \<open>1 + 2^53\<close> is
  rounded to \<open>2^53\<close> twice, is \<open>2^53\<close>.
\<close>

theorem replaceChain_counterexample:
  "reachable testEnv \<lparr>blockchain = exampleChain 53 0, unspentTxOuts = exampleUnspentTwo\<rparr>
   \<and> isValidChain testEnv (exampleChain 0 53) = Inr (Some exampleUnspentTwo)
   \<and> accumulatedDifficulty (exampleChain 0 53) = accumulatedDifficulty (exampleChain 53 0)
   \<and> exampleChain 0 53 \<noteq> exampleChain 53 0
   \<and> snd (replaceChain testEnv (exampleChain 0 53)
            \<lparr>blockchain = exampleChain 53 0, unspentTxOuts = exampleUnspentTwo\<rparr>)
       = \<lparr>blockchain = exampleChain 0 53, unspentTxOuts = exampleUnspentTwo\<rparr>"
  by (simp add: reachable_exampleChain_53_0 isValidChain_exampleChain accumulatedDifficulty_exampleChain
      exampleChain_distinct replaceChain_eq getAccumulatedDifficulty_0_53 getAccumulatedDifficulty_53_0)

text \<open>
  C3, amended: \<open>replaceChain\<close> stores the candidate chain and its unspent outputs when
  \<open>isValidChain\<close> returns them and the accumulated difficulty computed for the candidate
  is strictly greater than the one computed for the current chain; in every other case,
  equal computed values included, it leaves the state as it was. The computed accumulated
  difficulty is the sum of \<open>2 ^ difficulty\<close> over the blocks, added from left to right as
  numbers of the language, each sum rounded; for non-negative difficulties it is the
  exact sum whenever that is at most \<open>2^53\<close>.
\<close>

theorem replaceChain_heaviest_valid_chain:
  "(isValidChain E newBlocks = Inr (Some u)
      \<and> getAccumulatedDifficulty newBlocks = Inr dNew
      \<and> getAccumulatedDifficulty (blockchain s) = Inr dCurrent
      \<and> jsLess dCurrent dNew
    \<longrightarrow> snd (replaceChain E newBlocks s) = \<lparr>blockchain = newBlocks, unspentTxOuts = u\<rparr>)
   \<and> (\<not> (\<exists>u' x y. isValidChain E newBlocks = Inr (Some u')
                  \<and> getAccumulatedDifficulty newBlocks = Inr x
                  \<and> getAccumulatedDifficulty (blockchain s) = Inr y \<and> jsLess y x)
    \<longrightarrow> snd (replaceChain E newBlocks s) = s)
   \<and> (getAccumulatedDifficulty newBlocks = getAccumulatedDifficulty (blockchain s)
    \<longrightarrow> snd (replaceChain E newBlocks s) = s)
   \<and> getAccumulatedDifficulty (b # bs) =
        Inr (foldl (\<lambda>x y. jsAdd x y) (jsPow2 (difficulty b)) (map (\<lambda>b. jsPow2 (difficulty b)) bs))
   \<and> (chain \<noteq> [] \<and> (\<forall>b\<in>set chain. 0 \<le> difficulty b) \<and> accumulatedDifficulty chain \<le> 2 ^ 53
    \<longrightarrow> getAccumulatedDifficulty chain = Inr (num (accumulatedDifficulty chain)))"
proof -
  have 1: "getAccumulatedDifficulty (b # bs) =
        Inr (foldl (\<lambda>x y. jsAdd x y) (jsPow2 (difficulty b)) (map (\<lambda>b. jsPow2 (difficulty b)) bs))"
    by (simp add: getAccumulatedDifficulty_def comp_def)
  have 2: "chain \<noteq> [] \<and> (\<forall>b\<in>set chain. 0 \<le> difficulty b) \<and> accumulatedDifficulty chain \<le> 2 ^ 53
    \<longrightarrow> getAccumulatedDifficulty chain = Inr (num (accumulatedDifficulty chain))"
    using getAccumulatedDifficulty_exact [of chain] by blast
  have 3: "(isValidChain E newBlocks = Inr (Some u)
      \<and> getAccumulatedDifficulty newBlocks = Inr dNew
      \<and> getAccumulatedDifficulty (blockchain s) = Inr dCurrent
      \<and> jsLess dCurrent dNew
    \<longrightarrow> snd (replaceChain E newBlocks s) = \<lparr>blockchain = newBlocks, unspentTxOuts = u\<rparr>)"
    by (simp add: replaceChain_eq)
  have 4: "(\<not> (\<exists>u' x y. isValidChain E newBlocks = Inr (Some u')
                  \<and> getAccumulatedDifficulty newBlocks = Inr x
                  \<and> getAccumulatedDifficulty (blockchain s) = Inr y \<and> jsLess y x)
    \<longrightarrow> snd (replaceChain E newBlocks s) = s)"
    by (auto simp: replaceChain_eq split: sum.splits option.splits)
  have 5: "(getAccumulatedDifficulty newBlocks = getAccumulatedDifficulty (blockchain s)
    \<longrightarrow> snd (replaceChain E newBlocks s) = s)"
    by (auto simp: replaceChain_eq split: sum.splits option.splits)
  show ?thesis
    using 1 2 3 4 5 by blast
qed

lemma getAccumulatedDifficulty_example:
  "0 \<le> d \<Longrightarrow> d \<le> 52 \<Longrightarrow>
   getAccumulatedDifficulty [genesisBlock, exampleBlock d n] = Inr (num (1 + 2 ^ nat d))"
proof -
  assume d: "0 \<le> d" "d \<le> 52"
  have a: "accumulatedDifficulty [genesisBlock, exampleBlock d n] = 1 + 2 ^ nat d"
    by (simp add: accumulatedDifficulty_def exampleBlock_fields) (simp add: genesisBlock_def)
  have "nat d \<le> 52"
    using d by simp
  then have "(2 :: int) ^ nat d \<le> 2 ^ 52"
    by (intro power_increasing) simp_all
  then have "accumulatedDifficulty [genesisBlock, exampleBlock d n] \<le> 2 ^ 53"
    by (simp add: a)
  moreover have "\<forall>b\<in>set [genesisBlock, exampleBlock d n]. 0 \<le> difficulty b"
    using d by (simp add: exampleBlock_fields) (simp add: genesisBlock_def)
  ultimately show ?thesis
    using getAccumulatedDifficulty_exact [of "[genesisBlock, exampleBlock d n]"] a by simp
qed

theorem replaceChain_heaviest_valid_chain_witness:
  "snd (replaceChain testEnv [genesisBlock, exampleBlock 5 0]
          \<lparr>blockchain = [genesisBlock], unspentTxOuts = genesisUnspent\<rparr>)
     = \<lparr>blockchain = [genesisBlock, exampleBlock 5 0], unspentTxOuts = exampleUnspentAfter\<rparr>
   \<and> snd (replaceChain testEnv [genesisBlock, exampleBlock 0 1]
          \<lparr>blockchain = [genesisBlock, exampleBlock 0 0], unspentTxOuts = exampleUnspentAfter\<rparr>)
     = \<lparr>blockchain = [genesisBlock, exampleBlock 0 0], unspentTxOuts = exampleUnspentAfter\<rparr>
   \<and> exampleBlock 0 1 \<noteq> exampleBlock 0 0
   \<and> getAccumulatedDifficulty [genesisBlock, exampleBlock 5 0] = Inr (num 33)"
proof -
  have 1: "getAccumulatedDifficulty [genesisBlock] = Inr (num 1)"
    by (simp add: getAccumulatedDifficulty_def) (simp add: genesisBlock_def jsPow2_0)
  have 2: "getAccumulatedDifficulty [genesisBlock, exampleBlock 5 0] = Inr (num 33)"
    using getAccumulatedDifficulty_example [of 5 0] by simp
  have 3: "getAccumulatedDifficulty [genesisBlock, exampleBlock 0 1]
         = getAccumulatedDifficulty [genesisBlock, exampleBlock 0 0]"
    by (simp add: getAccumulatedDifficulty_example)
  have 4: "exampleBlock 0 1 \<noteq> exampleBlock 0 0"
  proof
    assume "exampleBlock 0 1 = exampleBlock 0 0"
    then have "nonce (exampleBlock 0 1) = nonce (exampleBlock 0 0)" by simp
    then show False by (simp add: exampleBlock_fields)
  qed
  have 5: "accumulatedDifficulty [genesisBlock, exampleBlock 5 0] = 33"
    by (simp add: accumulatedDifficulty_def exampleBlock_fields) (simp add: genesisBlock_def)
  have 6: "\<forall>b\<in>set [genesisBlock, exampleBlock 5 0]. 0 \<le> difficulty b"
    by (simp add: exampleBlock_fields) (simp add: genesisBlock_def)
  show ?thesis
    using replaceChain_heaviest_valid_chain
        [of testEnv "[genesisBlock, exampleBlock 5 0]" exampleUnspentAfter "num 33"
            "\<lparr>blockchain = [genesisBlock], unspentTxOuts = genesisUnspent\<rparr>" "num 1" _ _
            "[genesisBlock, exampleBlock 5 0]"]
      replaceChain_heaviest_valid_chain
        [of testEnv "[genesisBlock, exampleBlock 0 1]" _ _
            "\<lparr>blockchain = [genesisBlock, exampleBlock 0 0], unspentTxOuts = exampleUnspentAfter\<rparr>"]
      isValidChain_example [of 5 0] 1 2 3 4 5 6
    by simp
qed

end
